theory Spec2Isabelle
  imports Complex_Main "HOL-Library.Sublist"
begin

section \<open>Values and descriptors\<close>

text \<open>
  What \<^verbatim>\<open>JSON.parse\<close> returns. An object lists its own properties, each key once.
  The code only ever tests such a value for truthiness or reads a property of it.
\<close>

datatype json =
    JNull
  | JBool bool
  | JNum real
  | JStr string
  | JArr "json list"
  | JObj "(string \<times> json) list"

text \<open>
  A JavaScript value that may be \<^verbatim>\<open>undefined\<close> is a \<open>json option\<close>, with \<open>None\<close> for
  \<^verbatim>\<open>undefined\<close>. Truthiness: \<^verbatim>\<open>undefined\<close>, \<^verbatim>\<open>null\<close>, \<^verbatim>\<open>false\<close>, \<^verbatim>\<open>0\<close> and \<^verbatim>\<open>""\<close> are
  falsy, everything else (every array and object too) is truthy.
\<close>

fun truthy :: "json option \<Rightarrow> bool" where
  "truthy None = False"
| "truthy (Some JNull) = False"
| "truthy (Some (JBool b)) = b"
| "truthy (Some (JNum x)) = (x \<noteq> 0)"
| "truthy (Some (JStr s)) = (s \<noteq> [])"
| "truthy (Some (JArr xs)) = True"
| "truthy (Some (JObj kvs)) = True"

text \<open>
  A thrown value, as a \<^verbatim>\<open>catch\<close> clause sees it: an \<^verbatim>\<open>Error\<close> instance with its name
  and its message, or a value that is not an \<^verbatim>\<open>Error\<close>.
\<close>

datatype thrown = ErrorObj string string | NonError

text \<open>
  Reading a property \<^verbatim>\<open>v.key\<close> of a parsed value: \<^verbatim>\<open>null\<close> has no properties and the
  read throws a TypeError (\<open>Inl\<close>); an object gives its own property or \<^verbatim>\<open>undefined\<close>;
  the keys the code reads (\<^verbatim>\<open>env\<close>, \<^verbatim>\<open>ANTHROPIC_BASE_URL\<close>, \<^verbatim>\<open>ANTHROPIC_AUTH_TOKEN\<close>) are
  properties of no array, string, number or boolean, so there the read gives
  \<^verbatim>\<open>undefined\<close>.
\<close>

fun get_property :: "json \<Rightarrow> string \<Rightarrow> thrown + json option" where
  "get_property JNull key = Inl (ErrorObj ''TypeError'' ''Cannot read properties of null'')"
| "get_property (JObj kvs) key = Inr (map_of kvs key)"
| "get_property v key = Inr None"

text \<open>The truthiness of a string-typed optional field: defined and not empty.\<close>

fun truthy_string :: "string option \<Rightarrow> bool" where
  "truthy_string None = False"
| "truthy_string (Some s) = (s \<noteq> [])"

text \<open>
  The members that every object inherits from \<^verbatim>\<open>Object.prototype\<close>: functions, and
  under \<^verbatim>\<open>__proto__\<close> the prototype itself. Each of them is truthy, and none of them
  has a property \<^verbatim>\<open>settings\<close>, \<^verbatim>\<open>adapter\<close>, \<^verbatim>\<open>base_url\<close>, \<^verbatim>\<open>auth_env\<close> or
  \<^verbatim>\<open>headers\<close>.
\<close>

definition OBJECT_PROTOTYPE_MEMBERS :: "string list" where
  "OBJECT_PROTOTYPE_MEMBERS =
     [''constructor'', ''__defineGetter__'', ''__defineSetter__'', ''hasOwnProperty'',
      ''__lookupGetter__'', ''__lookupSetter__'', ''isPrototypeOf'', ''propertyIsEnumerable'',
      ''toString'', ''valueOf'', ''__proto__'', ''toLocaleString'']"

text \<open>
  The property access \<^verbatim>\<open>obj[name]\<close> on an object of a configuration document, given
  by its own properties: the own property under that name; failing that, the member
  inherited under that name; failing that, \<^verbatim>\<open>undefined\<close>.
\<close>

datatype 'a property = Own 'a | Inherited | Missing

definition get_member :: "(string \<times> 'a) list \<Rightarrow> string \<Rightarrow> 'a property" where
  "get_member own_properties nm =
     (case map_of own_properties nm of
        Some v \<Rightarrow> Own v
      | None \<Rightarrow> if List.member OBJECT_PROTOTYPE_MEMBERS nm then Inherited else Missing)"

datatype provider_type = CLIProxy | Settings | Api

text \<open>
  \<^verbatim>\<open>ResolvedProvider\<close>. TypeScript declares \<^verbatim>\<open>baseUrl: string\<close> and
  \<^verbatim>\<open>authToken?: string\<close>; the type parameter \<open>'v\<close> is what the two fields hold at run
  time: \<open>string\<close> in the typed code of the adapter and of the health monitor, \<open>json\<close>
  in the resolver, which stores what it finds in a parsed settings file unchecked.
\<close>

record 'v ResolvedProvider =
  name :: string
  type :: provider_type
  adapter :: string
  baseUrl :: 'v
  authToken :: "'v option"
  headers :: "(string \<rightharpoonup> string) option"

section \<open>The Anthropic pass-through adapter\<close>

text \<open>
  \<^verbatim>\<open>getHeaders\<close>: the content type, then the authorization header under
  \<^verbatim>\<open>if (provider.authToken)\<close>, then \<^verbatim>\<open>Object.assign(headers, provider.headers)\<close> under
  \<^verbatim>\<open>if (provider.headers)\<close>.
\<close>

definition getHeaders :: "string ResolvedProvider \<Rightarrow> (string \<rightharpoonup> string)" where
  "getHeaders provider =
     (let headers0 = [''Content-Type'' \<mapsto> ''application/json''];
          headers1 = (if truthy_string (authToken provider)
                      then headers0(''Authorization'' \<mapsto> ''Bearer '' @ the (authToken provider))
                      else headers0)
      in case headers provider of
           Some custom \<Rightarrow> headers1 ++ custom
         | None \<Rightarrow> headers1)"

text \<open>
  \<^verbatim>\<open>baseUrl.replace(/\/+$/, '')\<close>: the regular expression matches at the leftmost
  position from which the rest of the string is one or more slashes up to the end of
  the input; that match is replaced by the empty string.
\<close>

fun replace_trailing_slashes :: "string \<Rightarrow> string" where
  "replace_trailing_slashes [] = []"
| "replace_trailing_slashes (c # cs) =
     (if c = CHR ''/'' \<and> list_all (\<lambda>x. x = CHR ''/'') cs then []
      else c # replace_trailing_slashes cs)"

text \<open>\<^verbatim>\<open>s.endsWith(t)\<close>: the last \<open>length t\<close> characters of \<open>s\<close> are \<open>t\<close>.\<close>

definition endsWith :: "string \<Rightarrow> string \<Rightarrow> bool" where
  "endsWith s t = (length t \<le> length s \<and> drop (length s - length t) s = t)"

definition getEndpoint :: "string ResolvedProvider \<Rightarrow> string" where
  "getEndpoint provider =
     (let base = replace_trailing_slashes (baseUrl provider)
      in if endsWith base ''/v1'' then base @ ''/messages''
         else base @ ''/v1/messages'')"

text \<open>
  The endpoint as the specification words it: strip all trailing slashes, then append
  \<^verbatim>\<open>/messages\<close> when the stripped base already ends in \<^verbatim>\<open>/v1\<close>, and \<^verbatim>\<open>/v1/messages\<close>
  otherwise.
\<close>

definition strip_trailing_slashes_spec :: "string \<Rightarrow> string" where
  "strip_trailing_slashes_spec s = rev (dropWhile (\<lambda>c. c = CHR ''/'') (rev s))"

definition endpoint_spec :: "string ResolvedProvider \<Rightarrow> string" where
  "endpoint_spec descriptor =
     (let stripped = strip_trailing_slashes_spec (baseUrl descriptor)
      in if suffix ''/v1'' stripped then stripped @ ''/messages''
         else stripped @ ''/v1/messages'')"

section \<open>The health monitor\<close>

record ProviderHealthResult =
  provider :: string
  healthy :: bool
  latency :: int
  error :: "string option"
  checkedAt :: int

text \<open>
  The module's variables: the health cache, the shared CLIProxy port status and the
  time it was taken. Times are milliseconds. \<open>clock_reads\<close> is not a variable of the
  code: it counts the readings of the clock taken so far, so that successive calls of
  \<^verbatim>\<open>Date.now()\<close> and \<^verbatim>\<open>new Date()\<close> may each see a different time.
\<close>

record health_state =
  healthCache :: "string \<rightharpoonup> ProviderHealthResult"
  cliproxyPortHealthy :: "bool option"
  cliproxyPortCheckedAt :: "int option"
  clock_reads :: nat

definition CACHE_TTL :: int where
  "CACHE_TTL = 30 * 1000"

record response =
  status :: nat
  statusText :: string

text \<open>\<^verbatim>\<open>response.ok\<close> is, by the Fetch standard, a status from 200 to 299.\<close>

definition response_ok :: "response \<Rightarrow> bool" where
  "response_ok r = (200 \<le> status r \<and> status r \<le> 299)"

datatype fetch_result = Resolved response | Rejected thrown

text \<open>
  The arguments of \<^verbatim>\<open>fetch\<close>: the URL, and the \<^verbatim>\<open>method\<close>, \<^verbatim>\<open>headers\<close> and timeout of
  the abort signal (in milliseconds) of its second argument.
\<close>

record request =
  url :: string
  http_method :: string
  request_headers :: "string \<rightharpoonup> string"
  timeout_ms :: nat

text \<open>
  What surrounds one call of the monitor: the clock (its \<open>k\<close>-th reading), and the
  collaborators that are imported from other modules. Each of them returns or throws
  (\<open>Inl\<close>): \<^verbatim>\<open>getPortProcess(CLIPROXY_DEFAULT_PORT)\<close> resolves to a process or to
  \<^verbatim>\<open>null\<close>, or rejects; \<^verbatim>\<open>isCLIProxyProcess\<close> and \<^verbatim>\<open>getAuthStatus(name).authenticated\<close>
  return a boolean, or throw; \<^verbatim>\<open>fetch\<close> resolves to a response or rejects (a timeout
  of the abort signal is a rejection with an error named \<^verbatim>\<open>TimeoutError\<close>).
\<close>

record 'p world =
  clock :: "nat \<Rightarrow> int"
  getPortProcess :: "thrown + 'p option"
  isCLIProxyProcess :: "'p \<Rightarrow> thrown + bool"
  getAuthStatus :: "string \<Rightarrow> thrown + bool"
  fetch :: "request \<Rightarrow> fetch_result"

definition Date_now :: "'p world \<Rightarrow> health_state \<Rightarrow> int \<times> health_state" where
  "Date_now w s = (clock w (clock_reads s), s\<lparr>clock_reads := Suc (clock_reads s)\<rparr>)"

text \<open>Integers in a template literal: the decimal digits.\<close>

fun string_of_nat :: "nat \<Rightarrow> string" where
  "string_of_nat n =
     (if n < 10 then [''0123456789'' ! n]
      else string_of_nat (n div 10) @ [''0123456789'' ! (n mod 10)])"

declare string_of_nat.simps [simp del]

text \<open>
  The condition that guards the port probe, with its short circuit: the clock is read
  only when both variables are set.
\<close>

definition port_check_due :: "'p world \<Rightarrow> health_state \<Rightarrow> bool \<times> health_state" where
  "port_check_due w s =
     (case (cliproxyPortHealthy s, cliproxyPortCheckedAt s) of
        (Some h, Some t) \<Rightarrow>
          (let (now, s') = Date_now w s in (now - t > CACHE_TTL, s'))
      | _ \<Rightarrow> (True, s))"

text \<open>
  \<^verbatim>\<open>portProcess !== null && isCLIProxyProcess(portProcess)\<close> on what
  \<^verbatim>\<open>await getPortProcess(CLIPROXY_DEFAULT_PORT)\<close> gives: the process test is called
  only for a process.
\<close>

definition port_probe :: "'p world \<Rightarrow> thrown + bool" where
  "port_probe w =
     (case getPortProcess w of
        Inl e \<Rightarrow> Inl e
      | Inr None \<Rightarrow> Inr False
      | Inr (Some portProcess) \<Rightarrow> isCLIProxyProcess w portProcess)"

text \<open>
  The body of the \<^verbatim>\<open>if\<close>: when the probe throws, neither variable is assigned and the
  clock is not read.
\<close>

definition probe_port :: "'p world \<Rightarrow> health_state \<Rightarrow> thrown option \<times> health_state" where
  "probe_port w s =
     (case port_probe w of
        Inl e \<Rightarrow> (Some e, s)
      | Inr portHealthy \<Rightarrow>
          (let (now, s') = Date_now w s
           in (None, s'\<lparr>cliproxyPortHealthy := Some portHealthy,
                         cliproxyPortCheckedAt := Some now\<rparr>)))"

text \<open>
  \<^verbatim>\<open>checkCLIProxyProviderHealth\<close> has no \<^verbatim>\<open>try\<close>: what the probe or
  \<^verbatim>\<open>getAuthStatus\<close> throws is the outcome of the call (\<open>Inl\<close>), with the variables as
  they are at that point.
\<close>

definition checkCLIProxyProviderHealth ::
  "'p world \<Rightarrow> health_state \<Rightarrow> string ResolvedProvider
     \<Rightarrow> (thrown + ProviderHealthResult) \<times> health_state" where
  "checkCLIProxyProviderHealth w s prov =
     (let (startTime, s1) = Date_now w s;
          (due, s2) = port_check_due w s1;
          (probe_failure, s3) = (if due then probe_port w s2 else (None, s2))
      in case probe_failure of
           Some e \<Rightarrow> (Inl e, s3)
         | None \<Rightarrow>
             (let (now, s4) = Date_now w s3;
                  latency = now - startTime
              in case getAuthStatus w (name prov) of
                   Inl e \<Rightarrow> (Inl e, s4)
                 | Inr authenticated \<Rightarrow>
                     (let (checked, s5) = Date_now w s4
                      in if cliproxyPortHealthy s5 \<noteq> Some True then
                           (Inr \<lparr>provider = name prov, healthy = False, latency = latency,
                                 error = Some ''CLIProxy not running'', checkedAt = checked\<rparr>, s5)
                         else if \<not> authenticated then
                           (Inr \<lparr>provider = name prov, healthy = False, latency = latency,
                                 error = Some ''Not authenticated'', checkedAt = checked\<rparr>, s5)
                         else
                           (Inr \<lparr>provider = name prov, healthy = True, latency = latency,
                                 error = None, checkedAt = checked\<rparr>, s5))))"

text \<open>
  The request of the HTTP health check: the \<^verbatim>\<open>Authorization\<close> property is always
  written, then \<^verbatim>\<open>...provider.headers\<close> is spread over it.
\<close>

definition health_request :: "string ResolvedProvider \<Rightarrow> request" where
  "health_request prov =
     \<lparr>url = baseUrl prov @ ''/models'',
      http_method = ''GET'',
      request_headers =
        [''Authorization'' \<mapsto>
           (if truthy_string (authToken prov) then ''Bearer '' @ the (authToken prov) else [])]
        ++ (case headers prov of Some custom \<Rightarrow> custom | None \<Rightarrow> Map.empty),
      timeout_ms = 5000\<rparr>"

text \<open>The body of the \<^verbatim>\<open>try\<close> block: \<open>Inl\<close> is what it throws.\<close>

definition api_health_try ::
  "'p world \<Rightarrow> health_state \<Rightarrow> string ResolvedProvider \<Rightarrow> int
     \<Rightarrow> thrown + ProviderHealthResult \<times> health_state" where
  "api_health_try w s prov startTime =
     (case fetch w (health_request prov) of
        Rejected e \<Rightarrow> Inl e
      | Resolved resp \<Rightarrow>
          (let (now, s1) = Date_now w s;
               latency = now - startTime;
               (checked, s2) = Date_now w s1
           in if response_ok resp then
                Inr (\<lparr>provider = name prov, healthy = True, latency = latency,
                      error = None, checkedAt = checked\<rparr>, s2)
              else
                Inr (\<lparr>provider = name prov, healthy = False, latency = latency,
                      error = Some (''HTTP '' @ string_of_nat (status resp) @ '': '' @ statusText resp),
                      checkedAt = checked\<rparr>, s2)))"

definition checkApiProviderHealth ::
  "'p world \<Rightarrow> health_state \<Rightarrow> string ResolvedProvider \<Rightarrow> ProviderHealthResult \<times> health_state" where
  "checkApiProviderHealth w s prov =
     (let (startTime, s1) = Date_now w s
      in case api_health_try w s1 prov startTime of
           Inr r \<Rightarrow> r
         | Inl e \<Rightarrow>
             (let (now, s2) = Date_now w s1;
                  (checked, s3) = Date_now w s2
              in (\<lparr>provider = name prov, healthy = False, latency = now - startTime,
                   error = Some (case e of ErrorObj nm msg \<Rightarrow> msg | NonError \<Rightarrow> ''Unknown error''),
                   checkedAt = checked\<rparr>, s3)))"

text \<open>
  The live check, dispatched on the provider type. \<^verbatim>\<open>checkApiProviderHealth\<close> catches
  what its request throws and always returns a record.
\<close>

definition liveCheck ::
  "'p world \<Rightarrow> health_state \<Rightarrow> string ResolvedProvider
     \<Rightarrow> (thrown + ProviderHealthResult) \<times> health_state" where
  "liveCheck w s prov =
     (if type prov = CLIProxy then checkCLIProxyProviderHealth w s prov
      else (let (result, s') = checkApiProviderHealth w s prov in (Inr result, s')))"

text \<open>\<^verbatim>\<open>healthCache.set\<close> runs only when the live check has returned.\<close>

definition check_and_store ::
  "'p world \<Rightarrow> health_state \<Rightarrow> string ResolvedProvider
     \<Rightarrow> (thrown + ProviderHealthResult) \<times> health_state" where
  "check_and_store w s prov =
     (let (outcome, s') = liveCheck w s prov
      in case outcome of
           Inl e \<Rightarrow> (Inl e, s')
         | Inr result \<Rightarrow>
             (Inr result, s'\<lparr>healthCache := (healthCache s')(name prov \<mapsto> result)\<rparr>))"

text \<open>
  \<^verbatim>\<open>checkProviderHealth\<close>: in \<^verbatim>\<open>cached && Date.now() - cached.checkedAt.getTime() < CACHE_TTL\<close>
  the clock is read only when the cache has a record for the name.
\<close>

definition checkProviderHealth ::
  "'p world \<Rightarrow> health_state \<Rightarrow> string ResolvedProvider
     \<Rightarrow> (thrown + ProviderHealthResult) \<times> health_state" where
  "checkProviderHealth w s prov =
     (case healthCache s (name prov) of
        None \<Rightarrow> check_and_store w s prov
      | Some cached \<Rightarrow>
          (let (now, s1) = Date_now w s
           in if now - checkedAt cached < CACHE_TTL then (Inr cached, s1)
              else check_and_store w s1 prov))"

section \<open>The provider resolver\<close>

text \<open>
  The two configuration documents, as their loaders return them. An object whose keys
  the code enumerates is the association list of its own properties, in the order of
  \<^verbatim>\<open>Object.keys\<close>; reading a name in it is \<open>get_member\<close>. The fields \<^verbatim>\<open>adapter\<close> and \<^verbatim>\<open>headers\<close> of a provider
  entry are \<open>adapter_cfg\<close> and \<open>headers_cfg\<close> here, apart from the fields of the same
  names of a descriptor.
\<close>

record ProfileConfig =
  settings :: string

record UnifiedConfig =
  profiles :: "(string \<times> ProfileConfig) list option"

record ApiProviderConfig =
  adapter_cfg :: string
  base_url :: string
  auth_env :: string
  headers_cfg :: "(string \<rightharpoonup> string) option"

record RouterConfig =
  providers :: "(string \<times> ApiProviderConfig) list option"

text \<open>
  A path of the file system holds a regular file with its text, or something that
  exists and cannot be read as a file (a directory).
\<close>

datatype fs_node = RegularFile string | Directory

text \<open>
  What the resolver reads: the two loaded documents (\<open>None\<close> for \<^verbatim>\<open>null\<close>), the helper
  \<^verbatim>\<open>expandPath\<close>, the file system, \<^verbatim>\<open>JSON.parse\<close> (\<open>None\<close> where it throws a
  SyntaxError) and the process environment. \<^verbatim>\<open>expandPath\<close> is declared on strings and
  returns a path there; \<open>expandPath_undefined\<close> is what the call
  \<^verbatim>\<open>expandPath(undefined)\<close> does, a path or a throw: the code makes that call when it
  takes an inherited member for a profile entry.
\<close>

record host =
  loadUnifiedConfig :: "UnifiedConfig option"
  loadRouterConfig :: "RouterConfig option"
  expandPath :: "string \<Rightarrow> string"
  expandPath_undefined :: "thrown + string"
  files :: "string \<rightharpoonup> fs_node"
  JSON_parse :: "string \<Rightarrow> json option"
  process_env :: "string \<rightharpoonup> string"

definition existsSync :: "(string \<rightharpoonup> fs_node) \<Rightarrow> string \<Rightarrow> bool" where
  "existsSync fs path = (fs path \<noteq> None)"

definition readFileSync :: "(string \<rightharpoonup> fs_node) \<Rightarrow> string \<Rightarrow> thrown + string" where
  "readFileSync fs path =
     (case fs path of
        Some (RegularFile text) \<Rightarrow> Inr text
      | Some Directory \<Rightarrow> Inl (ErrorObj ''Error'' ''EISDIR: illegal operation on a directory, read'')
      | None \<Rightarrow> Inl (ErrorObj ''Error'' ''ENOENT: no such file or directory''))"

definition CLIPROXY_PROVIDER_LIST :: "string list" where
  "CLIPROXY_PROVIDER_LIST = [''agy'', ''gemini'', ''codex'', ''qwen'', ''iflow'', ''kiro'', ''ghcp'']"

definition CLIPROXY_BASE_URL :: string where
  "CLIPROXY_BASE_URL = ''http://127.0.0.1:8317''"

definition isCLIProxyProvider :: "string \<Rightarrow> bool" where
  "isCLIProxyProvider nm = List.member CLIPROXY_PROVIDER_LIST nm"

definition resolveCLIProxyProvider :: "string \<Rightarrow> json ResolvedProvider" where
  "resolveCLIProxyProvider nm =
     \<lparr>name = nm, type = CLIProxy, adapter = ''anthropic'',
      baseUrl = JStr (CLIPROXY_BASE_URL @ ''/api/provider/'' @ nm @ ''/v1''),
      authToken = None, headers = None\<rparr>"

text \<open>
  \<^verbatim>\<open>unifiedConfig?.profiles?.[name]\<close> and \<^verbatim>\<open>config?.providers?.[name]\<close>: property
  accesses, which find inherited members as well as entries.
\<close>

definition profile_entry :: "host \<Rightarrow> string \<Rightarrow> ProfileConfig property" where
  "profile_entry h nm =
     (case loadUnifiedConfig h of
        None \<Rightarrow> Missing
      | Some unifiedConfig \<Rightarrow>
          (case profiles unifiedConfig of None \<Rightarrow> Missing | Some ps \<Rightarrow> get_member ps nm))"

definition provider_entry :: "host \<Rightarrow> string \<Rightarrow> ApiProviderConfig property" where
  "provider_entry h nm =
     (case loadRouterConfig h of
        None \<Rightarrow> Missing
      | Some config \<Rightarrow>
          (case providers config of None \<Rightarrow> Missing | Some ps \<Rightarrow> get_member ps nm))"

text \<open>
  The body of the \<^verbatim>\<open>try\<close> block of \<^verbatim>\<open>resolveSettingsProfile\<close>: \<open>Inl\<close> is what it throws
  (the read of the file, the parse, or the read of \<^verbatim>\<open>settings.env\<close> when the parsed
  value is \<^verbatim>\<open>null\<close>). \<^verbatim>\<open>env\<close> is truthy or the empty object, so reading its properties
  never throws.
\<close>

definition settings_try :: "host \<Rightarrow> string \<Rightarrow> string \<Rightarrow> thrown + json ResolvedProvider" where
  "settings_try h nm settingsPath =
     (case readFileSync (files h) settingsPath of
        Inl e \<Rightarrow> Inl e
      | Inr text \<Rightarrow>
          (case JSON_parse h text of
             None \<Rightarrow> Inl (ErrorObj ''SyntaxError'' ''Unexpected token'')
           | Some settings_json \<Rightarrow>
               (case get_property settings_json ''env'' of
                  Inl e \<Rightarrow> Inl e
                | Inr env_field \<Rightarrow>
                    (let env = (if truthy env_field then the env_field else JObj [])
                     in case get_property env ''ANTHROPIC_BASE_URL'' of
                          Inl e \<Rightarrow> Inl e
                        | Inr base \<Rightarrow>
                            (case get_property env ''ANTHROPIC_AUTH_TOKEN'' of
                               Inl e \<Rightarrow> Inl e
                             | Inr token \<Rightarrow>
                                 Inr \<lparr>name = nm, type = Settings, adapter = ''anthropic'',
                                      baseUrl = (if truthy base then the base
                                                 else JStr ''https://api.anthropic.com/v1''),
                                      authToken = token, headers = None\<rparr>)))))"

text \<open>\<^verbatim>\<open>resolveSettingsProfile\<close> from \<^verbatim>\<open>existsSync\<close> on, for a settings path.\<close>

definition settings_at :: "host \<Rightarrow> string \<Rightarrow> string \<Rightarrow> json ResolvedProvider option" where
  "settings_at h nm settingsPath =
     (if \<not> existsSync (files h) settingsPath then None
      else (case settings_try h nm settingsPath of
              Inr resolved \<Rightarrow> Some resolved
            | Inl e \<Rightarrow> None))"

text \<open>
  \<^verbatim>\<open>resolveSettingsProfile\<close>: the descriptor or \<^verbatim>\<open>null\<close>, or what it throws. An
  inherited member passes the test \<^verbatim>\<open>!profileConfig\<close>; its \<^verbatim>\<open>settings\<close> is
  \<^verbatim>\<open>undefined\<close>, and \<^verbatim>\<open>expandPath\<close> is called on that, outside the \<^verbatim>\<open>try\<close>.
\<close>

definition resolveSettingsProfile :: "host \<Rightarrow> string \<Rightarrow> thrown + json ResolvedProvider option" where
  "resolveSettingsProfile h nm =
     (case profile_entry h nm of
        Missing \<Rightarrow> Inr None
      | Own profileConfig \<Rightarrow> Inr (settings_at h nm (expandPath h (settings profileConfig)))
      | Inherited \<Rightarrow>
          (case expandPath_undefined h of
             Inl e \<Rightarrow> Inl e
           | Inr settingsPath \<Rightarrow> Inr (settings_at h nm settingsPath)))"

definition resolveApiProvider :: "host \<Rightarrow> string \<Rightarrow> ApiProviderConfig \<Rightarrow> json ResolvedProvider" where
  "resolveApiProvider h nm config =
     \<lparr>name = nm, type = Api, adapter = adapter_cfg config,
      baseUrl = JStr (base_url config),
      authToken = map_option JStr (process_env h (auth_env config)),
      headers = headers_cfg config\<rparr>"

text \<open>
  What \<^verbatim>\<open>getProvider\<close> resolves to: a descriptor, \<^verbatim>\<open>null\<close>, or the object that
  \<^verbatim>\<open>resolveApiProvider\<close> builds from an inherited member that passed for a provider
  entry. That object has the name, the type \<^verbatim>\<open>api\<close> and, as its token, the environment
  variable named \<^verbatim>\<open>undefined\<close>; its \<^verbatim>\<open>adapter\<close>, \<^verbatim>\<open>baseUrl\<close> and \<^verbatim>\<open>headers\<close> are
  \<^verbatim>\<open>undefined\<close>, so it is no \<^verbatim>\<open>ResolvedProvider\<close> by the declared type.
\<close>

datatype resolution =
    Provider "json ResolvedProvider"
  | MemberProvider string "string option"
  | NotFound

definition getProvider :: "host \<Rightarrow> string \<Rightarrow> thrown + resolution" where
  "getProvider h nm =
     (if isCLIProxyProvider nm then Inr (Provider (resolveCLIProxyProvider nm))
      else case resolveSettingsProfile h nm of
             Inl e \<Rightarrow> Inl e
           | Inr (Some settingsProvider) \<Rightarrow> Inr (Provider settingsProvider)
           | Inr None \<Rightarrow>
               (case provider_entry h nm of
                  Own apiConfig \<Rightarrow> Inr (Provider (resolveApiProvider h nm apiConfig))
                | Inherited \<Rightarrow> Inr (MemberProvider nm (process_env h ''undefined''))
                | Missing \<Rightarrow> Inr NotFound))"

text \<open>
  The three loops of \<^verbatim>\<open>getAllProviders\<close>, each pushing onto the list built so far; the
  second one ends where \<^verbatim>\<open>resolveSettingsProfile\<close> throws.
\<close>

fun push_cliproxy :: "string list \<Rightarrow> json ResolvedProvider list \<Rightarrow> json ResolvedProvider list" where
  "push_cliproxy [] acc = acc"
| "push_cliproxy (nm # nms) acc = push_cliproxy nms (acc @ [resolveCLIProxyProvider nm])"

fun push_settings ::
  "host \<Rightarrow> string list \<Rightarrow> json ResolvedProvider list \<Rightarrow> thrown + json ResolvedProvider list" where
  "push_settings h [] acc = Inr acc"
| "push_settings h (nm # nms) acc =
     (case resolveSettingsProfile h nm of
        Inl e \<Rightarrow> Inl e
      | Inr (Some resolved) \<Rightarrow> push_settings h nms (acc @ [resolved])
      | Inr None \<Rightarrow> push_settings h nms acc)"

fun push_api ::
  "host \<Rightarrow> (string \<times> ApiProviderConfig) list \<Rightarrow> json ResolvedProvider list
     \<Rightarrow> json ResolvedProvider list" where
  "push_api h [] acc = acc"
| "push_api h ((nm, apiConfig) # rest) acc = push_api h rest (acc @ [resolveApiProvider h nm apiConfig])"

text \<open>\<^verbatim>\<open>Object.keys(unifiedConfig.profiles)\<close> and \<^verbatim>\<open>Object.entries(routerConfig.providers)\<close>.\<close>

definition profile_names :: "host \<Rightarrow> string list" where
  "profile_names h =
     (case loadUnifiedConfig h of
        None \<Rightarrow> []
      | Some unifiedConfig \<Rightarrow>
          (case profiles unifiedConfig of None \<Rightarrow> [] | Some ps \<Rightarrow> map fst ps))"

definition provider_entries :: "host \<Rightarrow> (string \<times> ApiProviderConfig) list" where
  "provider_entries h =
     (case loadRouterConfig h of
        None \<Rightarrow> []
      | Some routerConfig \<Rightarrow>
          (case providers routerConfig of None \<Rightarrow> [] | Some ps \<Rightarrow> ps))"

definition getAllProviders :: "host \<Rightarrow> thrown + json ResolvedProvider list" where
  "getAllProviders h =
     (case push_settings h (profile_names h) (push_cliproxy CLIPROXY_PROVIDER_LIST []) of
        Inl e \<Rightarrow> Inl e
      | Inr acc \<Rightarrow> Inr (push_api h (provider_entries h) acc))"

section \<open>The configuration editor\<close>

text \<open>
  The document interface that \<^verbatim>\<open>deleteRouterProfile\<close> uses, over a document type \<open>'d\<close>
  that keeps comments and layout, and a type \<open>'v\<close> of the values found in a document:
  \<^verbatim>\<open>parseDocument\<close>, \<^verbatim>\<open>doc.deleteIn\<close> and \<^verbatim>\<open>doc.toString\<close>; \<^verbatim>\<open>doc.getIn\<close>, with \<open>None\<close>
  for \<^verbatim>\<open>undefined\<close> and \<^verbatim>\<open>null\<close>; and \<open>property_of\<close>, the property that such a value has
  under a name of its own or from its class (an entry of a plain record, a member such
  as \<^verbatim>\<open>items\<close> of a document node), \<open>None\<close> when it has none there.
\<close>

record ('d, 'v) document_api =
  parseDocument :: "string \<Rightarrow> 'd"
  getIn :: "'d \<Rightarrow> string list \<Rightarrow> 'v option"
  property_of :: "'v \<Rightarrow> string \<Rightarrow> json option"
  deleteIn :: "'d \<Rightarrow> string list \<Rightarrow> 'd"
  toString :: "'d \<Rightarrow> string"

text \<open>
  The truthiness of \<^verbatim>\<open>profiles?.[name]\<close>: \<^verbatim>\<open>undefined\<close> when the section is \<^verbatim>\<open>undefined\<close>
  or \<^verbatim>\<open>null\<close>; otherwise a property access, which finds what the value has under the
  name and, failing that, the member that every value inherits under it.
\<close>

definition optional_member_truthy :: "('d, 'v) document_api \<Rightarrow> 'v option \<Rightarrow> string \<Rightarrow> bool" where
  "optional_member_truthy api profs nm =
     (case profs of
        None \<Rightarrow> False
      | Some section_value \<Rightarrow>
          (case property_of api section_value nm of
             Some v \<Rightarrow> truthy (Some v)
           | None \<Rightarrow> List.member OBJECT_PROTOTYPE_MEMBERS nm))"

definition writeFileSync :: "(string \<rightharpoonup> fs_node) \<Rightarrow> string \<Rightarrow> string \<Rightarrow> (string \<rightharpoonup> fs_node)" where
  "writeFileSync fs path text = fs(path \<mapsto> RegularFile text)"

text \<open>
  \<^verbatim>\<open>deleteRouterProfile\<close>, on the file system and the path that \<^verbatim>\<open>getConfigPath()\<close>
  returns: the result and the file system it leaves, or what it throws.
\<close>

definition deleteRouterProfile ::
  "('d, 'v) document_api \<Rightarrow> string \<Rightarrow> (string \<rightharpoonup> fs_node) \<Rightarrow> string
     \<Rightarrow> thrown + bool \<times> (string \<rightharpoonup> fs_node)" where
  "deleteRouterProfile api configPath fs nm =
     (if \<not> existsSync fs configPath then Inr (False, fs)
      else case readFileSync fs configPath of
             Inl e \<Rightarrow> Inl e
           | Inr text \<Rightarrow>
               (let doc = parseDocument api text;
                    profs = getIn api doc [''router'', ''profiles'']
                in if \<not> optional_member_truthy api profs nm then Inr (False, fs)
                   else (let doc' = deleteIn api doc [''router'', ''profiles'', nm]
                         in Inr (True, writeFileSync fs configPath (toString api doc')))))"

section \<open>Notions of the statements\<close>

text \<open>
  The value of the field \<^verbatim>\<open>env.key\<close> of a parsed settings file, \<open>None\<close> when the file
  has no \<^verbatim>\<open>env\<close> object or the object has no such key.
\<close>

fun env_value :: "json \<Rightarrow> string \<Rightarrow> json option" where
  "env_value (JObj kvs) key =
     (case map_of kvs ''env'' of Some (JObj env) \<Rightarrow> map_of env key | _ \<Rightarrow> None)"
| "env_value v key = None"

text \<open>
  A settings file can be used when it is a regular file whose text parses to a value
  other than \<^verbatim>\<open>null\<close>; it cannot when it is missing, is not a readable file, is not
  valid JSON, or is the JSON text \<^verbatim>\<open>null\<close>.
\<close>

definition settings_file_usable :: "host \<Rightarrow> string \<Rightarrow> bool" where
  "settings_file_usable h path =
     (case files h path of
        Some (RegularFile text) \<Rightarrow>
          (case JSON_parse h text of Some v \<Rightarrow> v \<noteq> JNull | None \<Rightarrow> False)
      | _ \<Rightarrow> False)"

section \<open>Sample inputs\<close>

definition sample_descriptor :: "string \<Rightarrow> string ResolvedProvider" where
  "sample_descriptor base =
     \<lparr>name = ''agy'', type = CLIProxy, adapter = ''anthropic'', baseUrl = base,
      authToken = None, headers = None\<rparr>"

definition sample_api_descriptor ::
  "string option \<Rightarrow> (string \<rightharpoonup> string) option \<Rightarrow> string ResolvedProvider" where
  "sample_api_descriptor token custom =
     \<lparr>name = ''openrouter'', type = Api, adapter = ''anthropic'',
      baseUrl = ''https://openrouter.ai/api/v1'', authToken = token, headers = custom\<rparr>"

definition initial_state :: health_state where
  "initial_state =
     \<lparr>healthCache = Map.empty, cliproxyPortHealthy = None, cliproxyPortCheckedAt = None,
      clock_reads = 0\<rparr>"

text \<open>
  A world whose clock starts at 1000 ms and advances 7 ms with every reading, where the
  CLIProxy process listens on its port or nothing does, only \<^verbatim>\<open>agy\<close> is authenticated, and
  the upstream answers every request with \<open>fetch_answer\<close>.
\<close>

definition sample_world :: "bool \<Rightarrow> fetch_result \<Rightarrow> unit world" where
  "sample_world port_up fetch_answer =
     \<lparr>clock = (\<lambda>k. 1000 + 7 * int k),
      getPortProcess = Inr (if port_up then Some () else None),
      isCLIProxyProcess = (\<lambda>_. Inr True),
      getAuthStatus = (\<lambda>nm. Inr (nm = ''agy'')),
      fetch = (\<lambda>_. fetch_answer)\<rparr>"


definition cached_record :: "int \<Rightarrow> ProviderHealthResult" where
  "cached_record t =
     \<lparr>provider = ''openrouter'', healthy = True, latency = 12, error = None, checkedAt = t\<rparr>"

definition state_with_record :: "int \<Rightarrow> health_state" where
  "state_with_record t = initial_state\<lparr>healthCache := [''openrouter'' \<mapsto> cached_record t]\<rparr>"

definition server_error :: fetch_result where
  "server_error = Resolved \<lparr>status = 500, statusText = ''Internal Server Error''\<rparr>"


definition custom_headers :: "string \<rightharpoonup> string" where
  "custom_headers = [''Authorization'' \<mapsto> ''Basic abc'', ''X-Title'' \<mapsto> ''ccs'']"

definition scenario_text :: string where
  \<open>scenario_text =
     ''{"env":{"ANTHROPIC_BASE_URL":"https://api.z.ai/api/anthropic","ANTHROPIC_AUTH_TOKEN":"tok123"}}''\<close>

definition scenario_settings :: json where
  "scenario_settings =
     JObj [(''env'', JObj [(''ANTHROPIC_BASE_URL'', JStr ''https://api.z.ai/api/anthropic''),
                           (''ANTHROPIC_AUTH_TOKEN'', JStr ''tok123'')])]"

text \<open>
  \<^verbatim>\<open>JSON.parse\<close> on the file texts of the examples: the scenario text, \<^verbatim>\<open>{}\<close> and
  \<^verbatim>\<open>null\<close> parse; the one other text the examples use, \<^verbatim>\<open>not json\<close>, is a syntax
  error.
\<close>

definition sample_JSON_parse :: "string \<Rightarrow> json option" where
  "sample_JSON_parse text =
     (if text = scenario_text then Some scenario_settings
      else if text = ''{}'' then Some (JObj [])
      else if text = ''null'' then Some JNull
      else None)"

text \<open>
  A host with two credential profiles, \<^verbatim>\<open>glm\<close> and \<^verbatim>\<open>kimi\<close>, and one remote-API
  provider, also named \<^verbatim>\<open>glm\<close>, over a given file system.
\<close>

definition sample_host :: "(string \<rightharpoonup> fs_node) \<Rightarrow> host" where
  "sample_host fs =
     \<lparr>loadUnifiedConfig =
        Some \<lparr>profiles = Some [(''glm'', \<lparr>settings = ''~/.ccs/glm.settings.json''\<rparr>),
                               (''kimi'', \<lparr>settings = ''~/.ccs/kimi.settings.json''\<rparr>)]\<rparr>,
      loadRouterConfig =
        Some \<lparr>providers = Some [(''glm'', \<lparr>adapter_cfg = ''anthropic'',
                                          base_url = ''https://open.bigmodel.cn/api/anthropic'',
                                          auth_env = ''GLM_API_KEY'',
                                          headers_cfg = None\<rparr>)]\<rparr>,
      expandPath = (\<lambda>path. if take 2 path = ''~/'' then ''/home/user/'' @ drop 2 path else path),
      expandPath_undefined =
        Inl (ErrorObj ''TypeError'' ''Cannot read properties of undefined''),
      files = fs,
      JSON_parse = sample_JSON_parse,
      process_env = [''GLM_API_KEY'' \<mapsto> ''sk-1'']\<rparr>"

definition glm_file :: "string \<Rightarrow> (string \<rightharpoonup> fs_node)" where
  "glm_file contents = [''/home/user/.ccs/glm.settings.json'' \<mapsto> RegularFile contents]"

definition kimi_file :: "string \<Rightarrow> (string \<rightharpoonup> fs_node)" where
  "kimi_file contents = [''/home/user/.ccs/kimi.settings.json'' \<mapsto> RegularFile contents]"

text \<open>
  A configuration file with one router profile, \<^verbatim>\<open>fast\<close>, and a comment; and a document
  interface that knows this one text: the document is the text itself, and the section
  of its profiles is a plain record.
\<close>

definition sample_config_text :: string where
  "sample_config_text = ''router: {profiles: {fast: {}}} # hand-written''"

definition sample_document_api :: "(string, json) document_api" where
  "sample_document_api =
     \<lparr>parseDocument = (\<lambda>contents. contents),
      getIn = (\<lambda>doc path.
                 if doc = sample_config_text \<and> path = [''router'', ''profiles'']
                 then Some (JObj [(''fast'', JObj [])]) else None),
      property_of = (\<lambda>v key. case v of JObj kvs \<Rightarrow> map_of kvs key | _ \<Rightarrow> None),
      deleteIn = (\<lambda>doc path.
                    if doc = sample_config_text \<and> path = [''router'', ''profiles'', ''fast'']
                    then ''router: {profiles: {}} # hand-written'' else doc),
      toString = (\<lambda>doc. doc)\<rparr>"

definition sample_config_fs :: "string \<rightharpoonup> fs_node" where
  "sample_config_fs = [''/home/user/.ccs/config.yaml'' \<mapsto> RegularFile sample_config_text]"

text \<open>
  A host whose one credential profile is named \<^verbatim>\<open>constructor\<close>; its settings file is
  missing, and no remote-API provider has that name.
\<close>

definition constructor_host :: host where
  "constructor_host =
     (sample_host Map.empty)
       \<lparr>loadUnifiedConfig :=
          Some \<lparr>profiles = Some [(''constructor'', \<lparr>settings = ''~/.ccs/c.settings.json''\<rparr>)]\<rparr>\<rparr>"

section \<open>Properties\<close>

lemma replace_trailing_slashes_spec:
  "replace_trailing_slashes s = strip_trailing_slashes_spec s"
proof (induction s)
  case Nil
  show ?case by (simp add: strip_trailing_slashes_spec_def)
next
  case (Cons c cs)
  show ?case
  proof (cases "list_all (\<lambda>x. x = CHR ''/'') cs")
    case True
    then have all: "\<forall>x\<in>set (rev cs). x = CHR ''/''" by (simp add: list_all_iff)
    have "strip_trailing_slashes_spec cs = []"
      using all by (simp add: strip_trailing_slashes_spec_def)
    with Cons True all show ?thesis
      by (simp add: strip_trailing_slashes_spec_def dropWhile_append)
  next
    case False
    then have nall: "\<not> (\<forall>x\<in>set (rev cs). x = CHR ''/'')" by (simp add: list_all_iff)
    with Cons False show ?thesis
      by (simp add: strip_trailing_slashes_spec_def dropWhile_append)
  qed
qed

lemma endsWith_suffix: "endsWith s t = suffix t s"
proof
  assume "endsWith s t"
  then have "s = take (length s - length t) s @ t"
    by (metis append_take_drop_id endsWith_def)
  then show "suffix t s" by (metis suffixI)
next
  assume "suffix t s"
  then obtain zs where "s = zs @ t" by (auto simp: suffix_def)
  then show "endsWith s t" by (simp add: endsWith_def)
qed

lemma getEndpoint_spec: "getEndpoint p = endpoint_spec p"
  by (simp add: getEndpoint_def endpoint_spec_def replace_trailing_slashes_spec endsWith_suffix)

lemma strip_prefix: "prefix (strip_trailing_slashes_spec s) s"
proof -
  have "suffix (dropWhile (\<lambda>c. c = CHR ''/'') (rev s)) (rev s)"
    by (rule suffix_dropWhile)
  then show ?thesis
    by (simp add: strip_trailing_slashes_spec_def suffix_to_prefix)
qed

lemma splits7:
  "''/v1/v1/'' = xs1 @ xs2 \<Longrightarrow>
     (xs1 = [] \<and> xs2 = ''/v1/v1/'') \<or> (xs1 = ''/'' \<and> xs2 = ''v1/v1/'') \<or> (xs1 = ''/v'' \<and> xs2 = ''1/v1/'')
   \<or> (xs1 = ''/v1'' \<and> xs2 = ''/v1/'') \<or> (xs1 = ''/v1/'' \<and> xs2 = ''v1/'') \<or> (xs1 = ''/v1/v'' \<and> xs2 = ''1/'')
   \<or> (xs1 = ''/v1/v1'' \<and> xs2 = ''/'') \<or> (xs1 = ''/v1/v1/'' \<and> xs2 = [])"
  by (auto simp: Cons_eq_append_conv)

lemma dup_weaken: "sublist ''/v1/v1/'' b \<Longrightarrow> sublist ''/v1/v1'' b"
proof -
  assume "sublist ''/v1/v1/'' b"
  moreover have "sublist ''/v1/v1'' ''/v1/v1/''"
    using sublist_append_rightI [of "''/v1/v1''" "''/''"] by simp
  ultimately show ?thesis by (rule sublist_order.order.trans [rotated])
qed

lemma dup_messages:
  assumes "sublist ''/v1/v1/'' (b @ ''/messages'')"
  shows "sublist ''/v1/v1'' b"
proof -
  have no: "\<not> sublist ''/v1/v1/'' ''/messages''" by (simp add: sublist_Cons_right)
  from assms no consider "sublist ''/v1/v1/'' b"
    | xs1 xs2 where "''/v1/v1/'' = xs1 @ xs2" "suffix xs1 b" "prefix xs2 ''/messages''"
    by (auto simp: sublist_append)
  then show ?thesis
  proof cases
    case 1 then show ?thesis by (rule dup_weaken)
  next
    case 2
    from splits7 [OF 2(1)] 2(2,3) have "suffix ''/v1/v1'' b \<or> suffix ''/v1/v1/'' b \<or> xs1 = []"
      by auto
    then show ?thesis using 2 dup_weaken by auto
  qed
qed

lemma dup_v1_messages:
  assumes "sublist ''/v1/v1/'' (b @ ''/v1/messages'')" and "\<not> suffix ''/v1'' b"
  shows "sublist ''/v1/v1'' b"
proof -
  have no: "\<not> sublist ''/v1/v1/'' ''/v1/messages''" by (simp add: sublist_Cons_right)
  from assms(1) no consider "sublist ''/v1/v1/'' b"
    | xs1 xs2 where "''/v1/v1/'' = xs1 @ xs2" "suffix xs1 b" "prefix xs2 ''/v1/messages''"
    by (auto simp: sublist_append)
  then show ?thesis
  proof cases
    case 1 then show ?thesis by (rule dup_weaken)
  next
    case 2
    from splits7 [OF 2(1)] 2(2,3) assms(2)
    have "suffix ''/v1/v1'' b \<or> suffix ''/v1/v1/'' b \<or> xs1 = []"
      by auto
    then show ?thesis using 2 dup_weaken by auto
  qed
qed

lemma getEndpoint_no_new_duplicate:
  assumes "sublist ''/v1/v1/'' (getEndpoint p)"
  shows "sublist ''/v1/v1'' (baseUrl p)"
proof -
  let ?b = "strip_trailing_slashes_spec (baseUrl p)"
  have "sublist ''/v1/v1'' ?b"
    using assms dup_messages [of ?b] dup_v1_messages [of ?b]
    by (auto simp add: getEndpoint_spec endpoint_spec_def Let_def split: if_splits)
  moreover have "sublist ?b (baseUrl p)"
    by (rule prefix_imp_sublist [OF strip_prefix])
  ultimately show ?thesis by (rule sublist_order.order.trans)
qed

text \<open>
  C6. The endpoint of the pass-through adapter is the reference definition: the base
  URL without its trailing slashes, followed by \<^verbatim>\<open>/messages\<close> when it already ends in
  \<^verbatim>\<open>/v1\<close> and by \<^verbatim>\<open>/v1/messages\<close> otherwise. The adapter introduces no duplicated
  version prefix: the endpoint contains \<^verbatim>\<open>/v1/v1/\<close> only when the base URL already
  contains \<^verbatim>\<open>/v1/v1\<close>.
\<close>

theorem getEndpoint_refines_spec:
  "getEndpoint p = endpoint_spec p \<and>
   (sublist ''/v1/v1/'' (getEndpoint p) \<longrightarrow> sublist ''/v1/v1'' (baseUrl p))"
  using getEndpoint_spec getEndpoint_no_new_duplicate by blast

text \<open>A base URL that itself holds the version prefix twice, with trailing slashes.\<close>

theorem getEndpoint_refines_spec_witness:
  "getEndpoint (sample_descriptor ''http://h/v1/v1//'') = ''http://h/v1/v1/messages''
   \<and> endpoint_spec (sample_descriptor ''http://h/v1/v1//'') = ''http://h/v1/v1/messages''
   \<and> sublist ''/v1/v1/'' (getEndpoint (sample_descriptor ''http://h/v1/v1//''))
   \<and> sublist ''/v1/v1'' (baseUrl (sample_descriptor ''http://h/v1/v1//''))"
proof -
  have e: "getEndpoint (sample_descriptor ''http://h/v1/v1//'') = ''http://h/v1/v1/messages''"
    by (simp add: getEndpoint_def sample_descriptor_def endsWith_def)
  have s: "sublist ''/v1/v1/'' (getEndpoint (sample_descriptor ''http://h/v1/v1//''))"
    unfolding e by (simp add: sublist_Cons_right)
  from getEndpoint_refines_spec [of "sample_descriptor ''http://h/v1/v1//''"] e s
  show ?thesis by simp
qed

lemma Date_now_fields:
  "healthCache (snd (Date_now w s)) = healthCache s"
  "cliproxyPortHealthy (snd (Date_now w s)) = cliproxyPortHealthy s"
  "cliproxyPortCheckedAt (snd (Date_now w s)) = cliproxyPortCheckedAt s"
  "clock_reads (snd (Date_now w s)) = Suc (clock_reads s)"
  "fst (Date_now w s) = clock w (clock_reads s)"
  by (simp_all add: Date_now_def)

lemma port_check_due_fields:
  "healthCache (snd (port_check_due w s)) = healthCache s"
  "cliproxyPortHealthy (snd (port_check_due w s)) = cliproxyPortHealthy s"
  "cliproxyPortCheckedAt (snd (port_check_due w s)) = cliproxyPortCheckedAt s"
  by (simp_all add: port_check_due_def Date_now_def split: option.splits prod.splits)

lemma port_check_due_value:
  "fst (port_check_due w s) =
     (case cliproxyPortHealthy s of None \<Rightarrow> True
      | Some h \<Rightarrow> (case cliproxyPortCheckedAt s of None \<Rightarrow> True
                   | Some t \<Rightarrow> clock w (clock_reads s) - t > CACHE_TTL))"
  by (simp add: port_check_due_def Date_now_def split: option.splits prod.splits)

lemma probe_port_fields:
  "healthCache (snd (probe_port w s)) = healthCache s"
  "fst (probe_port w s) = (case port_probe w of Inl e \<Rightarrow> Some e | Inr b \<Rightarrow> None)"
  "port_probe w = Inr b \<Longrightarrow> cliproxyPortHealthy (snd (probe_port w s)) = Some b"
  by (simp_all add: probe_port_def Date_now_def split: sum.splits)

text \<open>The port status that a CLIProxy check goes by, and the failure of its probe.\<close>

lemma cli_port_step:
  fixes w :: "'p world"
  defines "step \<equiv> \<lambda>s1. (if fst (port_check_due w s1) then probe_port w (snd (port_check_due w s1))
                         else (None, snd (port_check_due w s1)))"
  shows "healthCache (snd (step s1)) = healthCache s1"
    and "fst (step s1) = None \<Longrightarrow>
           cliproxyPortHealthy (snd (step s1)) =
             (if fst (port_check_due w s1) then Some (port_probe w = Inr True)
              else cliproxyPortHealthy s1)"
    and "fst (step s1) = None \<longleftrightarrow> \<not> fst (port_check_due w s1) \<or> (\<exists>b. port_probe w = Inr b)"
proof -
  show "healthCache (snd (step s1)) = healthCache s1"
    by (simp add: step_def probe_port_fields port_check_due_fields)
  show "fst (step s1) = None \<longleftrightarrow> \<not> fst (port_check_due w s1) \<or> (\<exists>b. port_probe w = Inr b)"
    by (cases "port_probe w") (simp_all add: step_def probe_port_fields)
  assume "fst (step s1) = None"
  then show "cliproxyPortHealthy (snd (step s1)) =
             (if fst (port_check_due w s1) then Some (port_probe w = Inr True)
              else cliproxyPortHealthy s1)"
    by (cases "port_probe w")
       (auto simp add: step_def probe_port_fields port_check_due_fields split: if_splits)
qed

lemma checkCLI_unfold:
  "checkCLIProxyProviderHealth w s p =
     (let s1 = snd (Date_now w s);
          step = (if fst (port_check_due w s1) then probe_port w (snd (port_check_due w s1))
                  else (None, snd (port_check_due w s1)));
          s3 = snd step
      in case fst step of
           Some e \<Rightarrow> (Inl e, s3)
         | None \<Rightarrow>
             (case getAuthStatus w (name p) of
                Inl e \<Rightarrow> (Inl e, snd (Date_now w s3))
              | Inr a \<Rightarrow>
                  (let port_ok = (cliproxyPortHealthy s3 = Some True);
                       base = \<lparr>provider = name p, healthy = port_ok \<and> a,
                               latency = fst (Date_now w s3) - fst (Date_now w s),
                               error = (if \<not> port_ok then Some ''CLIProxy not running''
                                        else if \<not> a then Some ''Not authenticated'' else None),
                               checkedAt = fst (Date_now w (snd (Date_now w s3)))\<rparr>
                   in (Inr base, snd (Date_now w (snd (Date_now w s3)))))))"
  unfolding checkCLIProxyProviderHealth_def
  by (simp add: Let_def split_def Date_now_fields split: option.splits sum.splits)

lemma cli_result:
  assumes "checkCLIProxyProviderHealth w s p = (Inr r, s')"
  shows "provider r = name p"
    and "healthy r = (cliproxyPortHealthy s' = Some True \<and> getAuthStatus w (name p) = Inr True)"
    and "error r = (if cliproxyPortHealthy s' \<noteq> Some True then Some ''CLIProxy not running''
                    else if getAuthStatus w (name p) \<noteq> Inr True then Some ''Not authenticated''
                    else None)"
    and "cliproxyPortHealthy s' =
           (if fst (port_check_due w (snd (Date_now w s))) then Some (port_probe w = Inr True)
            else cliproxyPortHealthy s)"
proof -
  let ?s1 = "snd (Date_now w s)"
  let ?step = "if fst (port_check_due w ?s1) then probe_port w (snd (port_check_due w ?s1))
               else (None, snd (port_check_due w ?s1))"
  from assms have n: "fst ?step = None"
    by (cases "fst ?step") (simp_all add: checkCLI_unfold Let_def)
  from assms n obtain a where a: "getAuthStatus w (name p) = Inr a"
    by (cases "getAuthStatus w (name p)") (simp_all add: checkCLI_unfold Let_def)
  from assms n a have r: "r = \<lparr>provider = name p,
        healthy = (cliproxyPortHealthy (snd ?step) = Some True \<and> a),
        latency = fst (Date_now w (snd ?step)) - fst (Date_now w s),
        error = (if cliproxyPortHealthy (snd ?step) \<noteq> Some True then Some ''CLIProxy not running''
                 else if \<not> a then Some ''Not authenticated'' else None),
        checkedAt = fst (Date_now w (snd (Date_now w (snd ?step))))\<rparr>"
    and s': "s' = snd (Date_now w (snd (Date_now w (snd ?step))))"
    by (simp_all add: checkCLI_unfold Let_def)
  have ph: "cliproxyPortHealthy s' = cliproxyPortHealthy (snd ?step)"
    by (simp add: s' Date_now_fields)
  have st: "cliproxyPortHealthy (snd ?step) =
           (if fst (port_check_due w ?s1) then Some (port_probe w = Inr True)
            else cliproxyPortHealthy ?s1)"
    using cli_port_step(2) [of w ?s1] n by simp
  show "provider r = name p" by (simp add: r)
  show "healthy r = (cliproxyPortHealthy s' = Some True \<and> getAuthStatus w (name p) = Inr True)"
    by (simp add: r ph a)
  show "error r = (if cliproxyPortHealthy s' \<noteq> Some True then Some ''CLIProxy not running''
                    else if getAuthStatus w (name p) \<noteq> Inr True then Some ''Not authenticated''
                    else None)"
    by (simp add: r ph a)
  show "cliproxyPortHealthy s' =
           (if fst (port_check_due w (snd (Date_now w s))) then Some (port_probe w = Inr True)
            else cliproxyPortHealthy s)"
    by (simp add: ph st Date_now_fields)
qed


lemma cli_cache:
  "healthCache (snd (checkCLIProxyProviderHealth w s p)) = healthCache s"
proof -
  let ?s1 = "snd (Date_now w s)"
  let ?step = "if fst (port_check_due w ?s1) then probe_port w (snd (port_check_due w ?s1))
               else (None, snd (port_check_due w ?s1))"
  have "healthCache (snd ?step) = healthCache s"
    using cli_port_step(1) [of w ?s1] by (simp add: Date_now_fields)
  then show ?thesis
    by (cases "fst ?step"; cases "getAuthStatus w (name p)")
       (simp_all add: checkCLI_unfold Let_def Date_now_fields)
qed

lemma api_result:
  "checkApiProviderHealth w s p = (r, s') \<Longrightarrow>
     healthCache s' = healthCache s \<and> provider r = name p \<and>
     (case fetch w (health_request p) of
        Resolved resp \<Rightarrow>
          (if 200 \<le> status resp \<and> status resp \<le> 299 then healthy r \<and> error r = None
           else \<not> healthy r \<and>
                error r = Some (''HTTP '' @ string_of_nat (status resp) @ '': '' @ statusText resp))
      | Rejected e \<Rightarrow>
          \<not> healthy r \<and>
          error r = Some (case e of ErrorObj nm msg \<Rightarrow> msg | NonError \<Rightarrow> ''Unknown error''))"
proof (cases "fetch w (health_request p)")
  case (Resolved resp)
  assume "checkApiProviderHealth w s p = (r, s')"
  with Resolved show ?thesis
    unfolding checkApiProviderHealth_def api_health_try_def
    by (cases "response_ok resp")
       (auto simp add: Let_def split_def Date_now_fields response_ok_def)
next
  case (Rejected e)
  assume "checkApiProviderHealth w s p = (r, s')"
  with Rejected show ?thesis
    unfolding checkApiProviderHealth_def api_health_try_def
    by (auto simp add: Let_def split_def Date_now_fields)
qed

lemma liveCheck_cache:
  "healthCache (snd (liveCheck w s p)) = healthCache s"
  using cli_cache [of w s p]
        api_result [of w s p "fst (checkApiProviderHealth w s p)" "snd (checkApiProviderHealth w s p)"]
  by (simp add: liveCheck_def split_def Let_def)

text \<open>
  C2, as the code has it. A live check of a CLIProxy provider that returns a record
  relies on the shared port status: the result of a probe when the status is unset or
  was taken more than 30 seconds before, the cached status otherwise. The record is
  healthy exactly when that status and the auth status both hold; when the port status
  fails the error is \<^verbatim>\<open>CLIProxy not running\<close> whatever the auth status; when only the
  auth status fails the error is \<^verbatim>\<open>Not authenticated\<close>.
\<close>

theorem cliproxy_health_verdict:
  assumes "type p = CLIProxy" and "liveCheck w s p = (Inr r, s')"
  shows "(let port_ok =
            (case (cliproxyPortHealthy s, cliproxyPortCheckedAt s) of
               (Some cached, Some t) \<Rightarrow>
                 if clock w (Suc (clock_reads s)) - t > 30000 then port_probe w = Inr True
                 else cached
             | _ \<Rightarrow> port_probe w = Inr True);
              auth_ok = (getAuthStatus w (name p) = Inr True)
          in healthy r = (port_ok \<and> auth_ok) \<and>
             (\<not> port_ok \<longrightarrow> error r = Some ''CLIProxy not running'') \<and>
             (port_ok \<and> \<not> auth_ok \<longrightarrow> error r = Some ''Not authenticated'') \<and>
             (port_ok \<and> auth_ok \<longrightarrow> error r = None))"
proof -
  from assms have c: "checkCLIProxyProviderHealth w s p = (Inr r, s')"
    by (simp add: liveCheck_def)
  show ?thesis
    using cli_result(2,3,4) [OF c]
    by (auto simp add: Let_def port_check_due_value Date_now_fields CACHE_TTL_def
        split: option.splits if_splits)
qed

text \<open>
  Nothing listens on the port, the caches are empty.
\<close>

theorem cliproxy_health_verdict_witness:
  "type (sample_descriptor ''http://127.0.0.1:8317/api/provider/agy/v1'') = CLIProxy
   \<and> port_probe (sample_world False (Rejected NonError)) \<noteq> Inr True
   \<and> fst (liveCheck (sample_world False (Rejected NonError)) initial_state
            (sample_descriptor ''http://127.0.0.1:8317/api/provider/agy/v1''))
       = Inr \<lparr>provider = ''agy'', healthy = False, latency = 14,
              error = Some ''CLIProxy not running'', checkedAt = 1021\<rparr>"
proof -
  let ?p = "sample_descriptor ''http://127.0.0.1:8317/api/provider/agy/v1''"
  let ?w = "sample_world False (Rejected NonError)"
  let ?r = "projr (fst (liveCheck ?w initial_state ?p))"
  have t: "type ?p = CLIProxy" by (simp add: sample_descriptor_def)
  have np: "port_probe ?w \<noteq> Inr True" by (simp add: port_probe_def sample_world_def)
  have f: "liveCheck ?w initial_state ?p = (Inr ?r, snd (liveCheck ?w initial_state ?p))"
    by (simp add: liveCheck_def checkCLIProxyProviderHealth_def sample_descriptor_def
        sample_world_def initial_state_def port_probe_def port_check_due_def probe_port_def
        Date_now_def Let_def)
  have v: "provider ?r = ''agy'' \<and> latency ?r = 14 \<and> checkedAt ?r = 1021"
    by (simp add: liveCheck_def checkCLIProxyProviderHealth_def sample_descriptor_def
        sample_world_def initial_state_def port_probe_def port_check_due_def probe_port_def
        Date_now_def Let_def)
  from cliproxy_health_verdict [OF t f] np
  have "\<not> healthy ?r \<and> error ?r = Some ''CLIProxy not running''"
    by (simp add: initial_state_def Let_def)
  with v have "?r = \<lparr>provider = ''agy'', healthy = False, latency = 14,
              error = Some ''CLIProxy not running'', checkedAt = 1021\<rparr>"
    by (cases ?r) simp
  with f t np show ?thesis by (metis fst_conv)
qed

text \<open>
  C2 as stated fails on the wording of the message: with the probe failing, the error
  is not \<^verbatim>\<open>multiplexer not running\<close>.
\<close>

theorem cliproxy_error_message_counterexample:
  "port_probe (sample_world False (Rejected NonError)) = Inr False
   \<and> fst (liveCheck (sample_world False (Rejected NonError)) initial_state
            (sample_descriptor ''http://127.0.0.1:8317/api/provider/agy/v1''))
       = Inr \<lparr>provider = ''agy'', healthy = False, latency = 14,
              error = Some ''CLIProxy not running'', checkedAt = 1021\<rparr>
   \<and> Some ''CLIProxy not running'' \<noteq> Some ''multiplexer not running''"
  by (simp add: liveCheck_def checkCLIProxyProviderHealth_def sample_descriptor_def
      sample_world_def initial_state_def port_probe_def port_check_due_def probe_port_def
      Date_now_def Let_def)

text \<open>
  C3. The TTL is 30 seconds. With a record cached under the provider's name, a call at
  an age below the TTL returns that record as it is, and nothing but the count of clock
  readings changes: no live check runs. At an age of the TTL or more (so whenever the
  age exceeds it) the call runs a live check and never returns the cached record: the
  result of the check is returned and stored under the provider's name, over the
  previous record, the other records being kept; and what the check throws is passed
  on, with nothing stored.
\<close>

theorem checkProviderHealth_ttl:
  assumes "healthCache s (name p) = Some cached"
  shows "(let age = clock w (clock_reads s) - checkedAt cached;
              s1 = s\<lparr>clock_reads := Suc (clock_reads s)\<rparr>;
              fresh = liveCheck w s1 p
          in CACHE_TTL = 30000 \<and>
             (age < 30000 \<longrightarrow> checkProviderHealth w s p = (Inr cached, s1)) \<and>
             (30000 \<le> age \<longrightarrow>
                checkProviderHealth w s p =
                  (case fst fresh of
                     Inr r \<Rightarrow> (Inr r, (snd fresh)\<lparr>healthCache := (healthCache s)(name p \<mapsto> r)\<rparr>)
                   | Inl e \<Rightarrow> (Inl e, snd fresh))))"
proof -
  let ?s1 = "s\<lparr>clock_reads := Suc (clock_reads s)\<rparr>"
  have d: "Date_now w s = (clock w (clock_reads s), ?s1)" by (simp add: Date_now_def)
  have c: "healthCache (snd (liveCheck w ?s1 p)) = healthCache s"
    using liveCheck_cache [of w ?s1 p] by simp
  show ?thesis
    using assms c
    by (cases "fst (liveCheck w ?s1 p)")
       (simp_all add: checkProviderHealth_def check_and_store_def d Let_def split_def CACHE_TTL_def)
qed

text \<open>
  A record that is 41 seconds old gives way to a live check; one that is half a second
  old is returned.
\<close>

theorem checkProviderHealth_ttl_witness:
  "healthCache (state_with_record (-40000)) (name (sample_api_descriptor None None))
     = Some (cached_record (-40000))
   \<and> fst (checkProviderHealth (sample_world False server_error) (state_with_record (-40000))
             (sample_api_descriptor None None))
     = Inr \<lparr>provider = ''openrouter'', healthy = False, latency = 7,
        error = Some ''HTTP 500: Internal Server Error'', checkedAt = 1021\<rparr>
   \<and> healthCache (snd (checkProviderHealth (sample_world False server_error)
                          (state_with_record (-40000)) (sample_api_descriptor None None)))
        ''openrouter''
     = Some \<lparr>provider = ''openrouter'', healthy = False, latency = 7,
             error = Some ''HTTP 500: Internal Server Error'', checkedAt = 1021\<rparr>
   \<and> fst (checkProviderHealth (sample_world False server_error) (state_with_record 500)
             (sample_api_descriptor None None))
     = Inr (cached_record 500)"
proof -
  let ?p = "sample_api_descriptor None None"
  let ?w = "sample_world False server_error"
  have h: "\<And>t. healthCache (state_with_record t) (name ?p) = Some (cached_record t)"
    by (simp add: state_with_record_def sample_api_descriptor_def)
  have n: "string_of_nat 500 = ''500''" by (simp add: string_of_nat.simps)
  have l: "fst (liveCheck ?w ((state_with_record (-40000))\<lparr>clock_reads := Suc (clock_reads (state_with_record (-40000)))\<rparr>) ?p)
           = Inr \<lparr>provider = ''openrouter'', healthy = False, latency = 7,
        error = Some ''HTTP 500: Internal Server Error'', checkedAt = 1021\<rparr>"
    by (simp add: liveCheck_def checkApiProviderHealth_def api_health_try_def sample_api_descriptor_def
        sample_world_def server_error_def state_with_record_def initial_state_def Date_now_def
        response_ok_def n Let_def)
  from checkProviderHealth_ttl [OF h [of "-40000"], where w = ?w]
       checkProviderHealth_ttl [OF h [of 500], where w = ?w] l
  show ?thesis
    by (simp add: Let_def h sample_world_def state_with_record_def initial_state_def
        cached_record_def sample_api_descriptor_def)
qed





text \<open>
  C7, as the code has it. Every entry of the mapping that \<^verbatim>\<open>getHeaders\<close> returns: a
  custom header of the descriptor wins under its name; otherwise \<^verbatim>\<open>Content-Type\<close> is
  \<^verbatim>\<open>application/json\<close>, and \<^verbatim>\<open>Authorization\<close> is \<^verbatim>\<open>Bearer\<close> and the token exactly when
  the token is set and not the empty string; there is no other header.
\<close>

theorem getHeaders_entries:
  "getHeaders p k =
     (case (case headers p of Some custom \<Rightarrow> custom k | None \<Rightarrow> None) of
        Some v \<Rightarrow> Some v
      | None \<Rightarrow>
          if k = ''Content-Type'' then Some ''application/json''
          else if k = ''Authorization'' then
            (case authToken p of
               Some t \<Rightarrow> if t = [] then None else Some (''Bearer '' @ t)
             | None \<Rightarrow> None)
          else None)"
proof -
  let ?base = "if truthy_string (authToken p)
               then [''Content-Type'' \<mapsto> ''application/json'',
                     ''Authorization'' \<mapsto> ''Bearer '' @ the (authToken p)]
               else [''Content-Type'' \<mapsto> ''application/json'']"
  have g: "getHeaders p = (case headers p of Some custom \<Rightarrow> ?base ++ custom | None \<Rightarrow> ?base)"
    by (simp add: getHeaders_def Let_def)
  have b: "?base k =
          (if k = ''Content-Type'' then Some ''application/json''
           else if k = ''Authorization'' then
             (case authToken p of
                Some t \<Rightarrow> if t = [] then None else Some (''Bearer '' @ t)
              | None \<Rightarrow> None)
           else None)"
    by (cases "authToken p") simp_all
  show ?thesis
  proof (cases "headers p")
    case None
    with g b show ?thesis by simp
  next
    case (Some custom)
    with g b show ?thesis by (cases "custom k") (simp_all add: map_add_def)
  qed
qed

text \<open>
  A token, no token, and a custom \<^verbatim>\<open>Authorization\<close> header that overrides the token.
\<close>

theorem getHeaders_entries_witness:
  "getHeaders (sample_api_descriptor (Some ''tok123'') None) ''Authorization'' = Some ''Bearer tok123''
   \<and> getHeaders (sample_api_descriptor (Some ''tok123'') None) ''Content-Type'' = Some ''application/json''
   \<and> getHeaders (sample_api_descriptor None None) ''Authorization'' = None
   \<and> getHeaders (sample_api_descriptor (Some ''tok123'') (Some custom_headers)) ''Authorization''
       = Some ''Basic abc''"
  using getHeaders_entries [of "sample_api_descriptor (Some ''tok123'') None" "''Authorization''"]
        getHeaders_entries [of "sample_api_descriptor (Some ''tok123'') None" "''Content-Type''"]
        getHeaders_entries [of "sample_api_descriptor None None" "''Authorization''"]
        getHeaders_entries [of "sample_api_descriptor (Some ''tok123'') (Some custom_headers)" "''Authorization''"]
  by (simp add: sample_api_descriptor_def custom_headers_def)

text \<open>
  C7 as stated fails for a token that is set to the empty string: the mapping has no
  authorization header.
\<close>

theorem getHeaders_empty_token_counterexample:
  "authToken (sample_api_descriptor (Some []) None) \<noteq> None
   \<and> getHeaders (sample_api_descriptor (Some []) None) ''Authorization'' = None"
  by (simp add: getHeaders_def sample_api_descriptor_def)

text \<open>
  C10, as the code has it. The request of the HTTP health check is a \<^verbatim>\<open>GET\<close> of the
  base URL followed by \<^verbatim>\<open>/models\<close>, and it always has an \<^verbatim>\<open>Authorization\<close> header: the
  custom header of that name when the descriptor has one; otherwise \<^verbatim>\<open>Bearer\<close> and the
  token when the token is set and not the empty string, and the empty string when the
  token is unset or empty. The check of a provider that is not a CLIProxy one depends on
  \<^verbatim>\<open>fetch\<close> through its answer to this request only.
\<close>

theorem health_request_authorization:
  "request_headers (health_request p) ''Authorization'' =
     (case (case headers p of Some custom \<Rightarrow> custom ''Authorization'' | None \<Rightarrow> None) of
        Some v \<Rightarrow> Some v
      | None \<Rightarrow>
          (case authToken p of
             Some t \<Rightarrow> if t = [] then Some [] else Some (''Bearer '' @ t)
           | None \<Rightarrow> Some []))
   \<and> url (health_request p) = baseUrl p @ ''/models''
   \<and> http_method (health_request p) = ''GET''
   \<and> (type p \<noteq> CLIProxy \<and> fetch w (health_request p) = fetch w' (health_request p)
        \<and> clock w = clock w' \<longrightarrow> liveCheck w s p = liveCheck w' s p)"
proof -
  have h: "request_headers (health_request p) ''Authorization'' =
     (case (case headers p of Some custom \<Rightarrow> custom ''Authorization'' | None \<Rightarrow> None) of
        Some v \<Rightarrow> Some v
      | None \<Rightarrow>
          (case authToken p of
             Some t \<Rightarrow> if t = [] then Some [] else Some (''Bearer '' @ t)
           | None \<Rightarrow> Some []))"
    by (cases "authToken p")
       (auto simp add: health_request_def map_add_def split: option.splits)
  have l: "liveCheck w s p = liveCheck w' s p"
    if "type p \<noteq> CLIProxy" "fetch w (health_request p) = fetch w' (health_request p)"
       "clock w = clock w'"
  proof -
    from that(3) have dn: "Date_now w = Date_now w'"
      by (simp add: Date_now_def fun_eq_iff)
    show ?thesis
      unfolding liveCheck_def checkApiProviderHealth_def api_health_try_def dn that(2)
      using that(1) by simp
  qed
  show ?thesis using h l by (simp add: health_request_def)
qed

text \<open>
  A token, no token, a custom header; and two worlds that differ in the port only.
\<close>

theorem health_request_authorization_witness:
  "request_headers (health_request (sample_api_descriptor (Some ''tok123'') None)) ''Authorization''
     = Some ''Bearer tok123''
   \<and> request_headers (health_request (sample_api_descriptor None None)) ''Authorization'' = Some []
   \<and> request_headers (health_request (sample_api_descriptor None (Some custom_headers))) ''Authorization''
     = Some ''Basic abc''
   \<and> liveCheck (sample_world False server_error) initial_state (sample_api_descriptor None None)
     = liveCheck (sample_world True server_error) initial_state (sample_api_descriptor None None)"
proof -
  let ?p = "sample_api_descriptor None None"
  have t: "type ?p \<noteq> CLIProxy" by (simp add: sample_api_descriptor_def)
  have f: "fetch (sample_world False server_error) (health_request ?p)
           = fetch (sample_world True server_error) (health_request ?p)"
    by (simp add: sample_world_def)
  have c: "clock (sample_world False server_error) = clock (sample_world True server_error)"
    by (simp add: sample_world_def)
  let ?w1 = "sample_world False server_error" and ?w2 = "sample_world True server_error"
  note a = health_request_authorization
             [where p = "sample_api_descriptor (Some ''tok123'') None" and w = ?w1 and w' = ?w2
                and s = initial_state]
  note b = health_request_authorization
             [where p = "sample_api_descriptor None (Some custom_headers)" and w = ?w1 and w' = ?w2
                and s = initial_state]
  note c' = health_request_authorization
             [where p = ?p and w = ?w1 and w' = ?w2 and s = initial_state]
  have 1: "request_headers (health_request (sample_api_descriptor (Some ''tok123'') None)) ''Authorization''
     = Some ''Bearer tok123''"
    using a by (simp add: sample_api_descriptor_def)
  have 2: "request_headers (health_request (sample_api_descriptor None (Some custom_headers))) ''Authorization''
     = Some ''Basic abc''"
    using b by (simp add: sample_api_descriptor_def custom_headers_def)
  have 3: "request_headers (health_request ?p) ''Authorization'' = Some []"
    using c' by (simp add: sample_api_descriptor_def)
  have 4: "liveCheck ?w1 initial_state ?p = liveCheck ?w2 initial_state ?p"
    using c' t f c by simp
  from 1 2 3 4 show ?thesis by simp
qed

text \<open>
  C10 as stated fails for a token that is set to the empty string: the header is the
  empty string, not \<^verbatim>\<open>Bearer\<close> followed by the token.
\<close>

theorem health_request_empty_token_counterexample:
  "authToken (sample_api_descriptor (Some []) None) = Some []
   \<and> request_headers (health_request (sample_api_descriptor (Some []) None)) ''Authorization''
       \<noteq> Some (''Bearer '' @ the (authToken (sample_api_descriptor (Some []) None)))"
  by (simp add: health_request_def sample_api_descriptor_def)

lemma settings_try_unusable:
  "\<not> settings_file_usable h path \<Longrightarrow> \<exists>e. settings_try h nm path = Inl e"
  by (auto simp add: settings_file_usable_def settings_try_def readFileSync_def
      split: option.splits fs_node.splits)

lemma get_property_truthy:
  "truthy (Some v) \<Longrightarrow> \<exists>r. get_property v key = Inr r"
  by (cases v) simp_all

lemma settings_try_usable:
  assumes "files h path = Some (RegularFile contents)" and "JSON_parse h contents = Some v"
    and "v \<noteq> JNull"
  shows "\<exists>d. settings_try h nm path = Inr d \<and> name d = nm \<and> type d = Settings"
proof -
  from assms(3) obtain envf where e: "get_property v ''env'' = Inr envf"
    by (cases v) simp_all
  let ?env = "if truthy envf then the envf else JObj []"
  have "truthy (Some ?env)" by (cases envf) auto
  then obtain b t where "get_property ?env ''ANTHROPIC_BASE_URL'' = Inr b"
      "get_property ?env ''ANTHROPIC_AUTH_TOKEN'' = Inr t"
    using get_property_truthy by blast
  with assms(1,2) e show ?thesis
    by (simp add: settings_try_def readFileSync_def Let_def)
qed

lemma settings_at_usable:
  "(settings_at h nm path \<noteq> None) = settings_file_usable h path"
proof (cases "settings_file_usable h path")
  case False
  then obtain e where "settings_try h nm path = Inl e"
    using settings_try_unusable by blast
  with False show ?thesis by (simp add: settings_at_def)
next
  case True
  then obtain contents v where f: "files h path = Some (RegularFile contents)"
      "JSON_parse h contents = Some v" "v \<noteq> JNull"
    by (auto simp add: settings_file_usable_def split: option.splits fs_node.splits)
  then obtain d where "settings_try h nm path = Inr d"
    using settings_try_usable by blast
  with True f(1) show ?thesis
    by (simp add: settings_at_def existsSync_def)
qed

lemma resolveSettingsProfile_own:
  "profile_entry h nm = Own pc \<Longrightarrow>
     resolveSettingsProfile h nm = Inr (settings_at h nm (expandPath h (settings pc)))"
  by (simp add: resolveSettingsProfile_def)

lemma resolveSettingsProfile_usable:
  "profile_entry h nm = Own pc \<Longrightarrow>
     (resolveSettingsProfile h nm \<noteq> Inr None) = settings_file_usable h (expandPath h (settings pc))"
  using settings_at_usable [of h nm "expandPath h (settings pc)"]
  by (simp add: resolveSettingsProfile_own)

lemma settings_at_name_type:
  "settings_at h nm path = Some d \<Longrightarrow> name d = nm \<and> type d = Settings"
  by (auto simp add: settings_at_def settings_try_def Let_def
      split: option.splits if_splits sum.splits)

lemma resolveSettingsProfile_name_type:
  "resolveSettingsProfile h nm = Inr (Some d) \<Longrightarrow> name d = nm \<and> type d = Settings"
  using settings_at_name_type
  by (auto simp add: resolveSettingsProfile_def split: property.splits sum.splits)

text \<open>
  C1, as the code has it. For a name that is no built-in CLIProxy identifier and is a
  key of the credential-profile map: when the settings file cannot be used (it is
  missing or unparsable; also when it is not a readable file or parses to \<^verbatim>\<open>null\<close>),
  the credential-profile step yields nothing and resolution goes on with the remote-API
  map: the result is the remote-API descriptor when the name is a key of that map, and
  not-found when the name is neither a key of that map nor the name of an inherited
  member.
\<close>

theorem getProvider_unusable_settings:
  assumes "\<not> isCLIProxyProvider nm" and "profile_entry h nm = Own pc"
    and "\<not> settings_file_usable h (expandPath h (settings pc))"
  shows "resolveSettingsProfile h nm = Inr None
       \<and> (\<forall>apiConfig. provider_entry h nm = Own apiConfig \<longrightarrow>
            getProvider h nm = Inr (Provider (resolveApiProvider h nm apiConfig)))
       \<and> (provider_entry h nm = Missing \<longrightarrow> getProvider h nm = Inr NotFound)"
proof -
  from assms(2,3) have "resolveSettingsProfile h nm = Inr None"
    using resolveSettingsProfile_usable by blast
  with assms(1) show ?thesis by (simp add: getProvider_def)
qed

text \<open>
  The remaining case is a name that is no key of the remote-API map but names an
  inherited member: the member passes for a provider entry.
\<close>

lemma getProvider_inherited_member:
  assumes "\<not> isCLIProxyProvider nm" and "profile_entry h nm = Own pc"
    and "\<not> settings_file_usable h (expandPath h (settings pc))"
    and "provider_entry h nm = Inherited"
  shows "getProvider h nm = Inr (MemberProvider nm (process_env h ''undefined''))"
proof -
  from assms(2,3) have "resolveSettingsProfile h nm = Inr None"
    using resolveSettingsProfile_usable by blast
  with assms(1,4) show ?thesis by (simp add: getProvider_def)
qed

lemma getProvider_constructor_example:
  "getProvider constructor_host ''constructor'' = Inr (MemberProvider ''constructor'' None)"
proof -
  have 1: "\<not> isCLIProxyProvider ''constructor''"
    by (simp add: isCLIProxyProvider_def CLIPROXY_PROVIDER_LIST_def)
  have 2: "profile_entry constructor_host ''constructor'' = Own \<lparr>settings = ''~/.ccs/c.settings.json''\<rparr>"
    by (simp add: profile_entry_def constructor_host_def get_member_def)
  have 3: "\<not> settings_file_usable constructor_host
             (expandPath constructor_host (settings \<lparr>settings = ''~/.ccs/c.settings.json''\<rparr>))"
    by (simp add: settings_file_usable_def constructor_host_def sample_host_def)
  have 4: "provider_entry constructor_host ''constructor'' = Inherited"
    by (simp add: provider_entry_def constructor_host_def sample_host_def get_member_def
        OBJECT_PROTOTYPE_MEMBERS_def)
  have 5: "process_env constructor_host ''undefined'' = None"
    by (simp add: constructor_host_def sample_host_def)
  from getProvider_inherited_member [OF 1 2 3 4] 5 show ?thesis by simp
qed

lemma sample_host_glm:
  "\<not> isCLIProxyProvider ''glm''"
  "profile_entry (sample_host fs) ''glm'' = Own \<lparr>settings = ''~/.ccs/glm.settings.json''\<rparr>"
  "expandPath (sample_host fs) ''~/.ccs/glm.settings.json'' = ''/home/user/.ccs/glm.settings.json''"
  "provider_entry (sample_host fs) ''glm'' =
     Own \<lparr>adapter_cfg = ''anthropic'', base_url = ''https://open.bigmodel.cn/api/anthropic'',
          auth_env = ''GLM_API_KEY'', headers_cfg = None\<rparr>"
  by (simp_all add: isCLIProxyProvider_def CLIPROXY_PROVIDER_LIST_def profile_entry_def
      provider_entry_def sample_host_def get_member_def)

lemma sample_host_kimi:
  "profile_entry (sample_host fs) ''kimi'' = Own \<lparr>settings = ''~/.ccs/kimi.settings.json''\<rparr>"
  "expandPath (sample_host fs) ''~/.ccs/kimi.settings.json'' = ''/home/user/.ccs/kimi.settings.json''"
  "profile_names (sample_host fs) = [''glm'', ''kimi'']"
  "files (sample_host fs) = fs"
  "JSON_parse (sample_host fs) = sample_JSON_parse"
  "\<not> isCLIProxyProvider ''kimi''"
  "provider_entry (sample_host fs) ''kimi'' = Missing"
  by (simp_all add: profile_entry_def profile_names_def sample_host_def get_member_def
      isCLIProxyProvider_def CLIPROXY_PROVIDER_LIST_def provider_entry_def
      OBJECT_PROTOTYPE_MEMBERS_def)

text \<open>
  The profile \<^verbatim>\<open>glm\<close>, whose name is also a remote-API provider, with its settings
  file missing and with a settings file that is not JSON; and the profile \<^verbatim>\<open>kimi\<close>,
  which is no remote-API provider.
\<close>

theorem getProvider_unusable_settings_witness:
  "\<not> isCLIProxyProvider ''glm''
   \<and> \<not> settings_file_usable (sample_host Map.empty) ''/home/user/.ccs/glm.settings.json''
   \<and> \<not> settings_file_usable (sample_host (glm_file ''not json'')) ''/home/user/.ccs/glm.settings.json''
   \<and> getProvider (sample_host Map.empty) ''glm'' = getProvider (sample_host (glm_file ''not json'')) ''glm''
   \<and> getProvider (sample_host (glm_file ''not json'')) ''glm'' =
       Inr (Provider \<lparr>name = ''glm'', type = Api, adapter = ''anthropic'',
             baseUrl = JStr ''https://open.bigmodel.cn/api/anthropic'',
             authToken = Some (JStr ''sk-1''), headers = None\<rparr>)
   \<and> provider_entry (sample_host Map.empty) ''kimi'' = Missing
   \<and> getProvider (sample_host Map.empty) ''kimi'' = Inr NotFound"
proof -
  have u1: "\<not> settings_file_usable (sample_host Map.empty) ''/home/user/.ccs/glm.settings.json''"
    by (simp add: settings_file_usable_def sample_host_kimi)
  have u2: "\<not> settings_file_usable (sample_host (glm_file ''not json'')) ''/home/user/.ccs/glm.settings.json''"
    by (simp add: settings_file_usable_def sample_host_kimi glm_file_def sample_JSON_parse_def
        scenario_text_def)
  have u3: "\<not> settings_file_usable (sample_host Map.empty) ''/home/user/.ccs/kimi.settings.json''"
    by (simp add: settings_file_usable_def sample_host_kimi)
  have r: "\<And>fs. resolveApiProvider (sample_host fs) ''glm''
              \<lparr>adapter_cfg = ''anthropic'', base_url = ''https://open.bigmodel.cn/api/anthropic'',
               auth_env = ''GLM_API_KEY'', headers_cfg = None\<rparr>
            = \<lparr>name = ''glm'', type = Api, adapter = ''anthropic'',
               baseUrl = JStr ''https://open.bigmodel.cn/api/anthropic'',
               authToken = Some (JStr ''sk-1''), headers = None\<rparr>"
    by (simp add: resolveApiProvider_def sample_host_def)
  from getProvider_unusable_settings
         [OF sample_host_glm(1) sample_host_glm(2) [of Map.empty]]
       getProvider_unusable_settings
         [OF sample_host_glm(1) sample_host_glm(2) [of "glm_file ''not json''"]]
       getProvider_unusable_settings
         [OF sample_host_kimi(6) sample_host_kimi(1) [of Map.empty]]
       u1 u2 u3
  show ?thesis
    by (simp add: sample_host_glm sample_host_kimi r)
qed

text \<open>
  C1 as stated fails: \<^verbatim>\<open>glm\<close> is a key of the credential-profile map, its settings
  file is missing, and the result is the remote-API descriptor of the same name.
\<close>

theorem getProvider_falls_through_counterexample:
  "\<not> isCLIProxyProvider ''glm''
   \<and> profile_entry (sample_host Map.empty) ''glm'' = Own \<lparr>settings = ''~/.ccs/glm.settings.json''\<rparr>
   \<and> \<not> existsSync (files (sample_host Map.empty))
          (expandPath (sample_host Map.empty) ''~/.ccs/glm.settings.json'')
   \<and> getProvider (sample_host Map.empty) ''glm'' =
       Inr (Provider \<lparr>name = ''glm'', type = Api, adapter = ''anthropic'',
             baseUrl = JStr ''https://open.bigmodel.cn/api/anthropic'',
             authToken = Some (JStr ''sk-1''), headers = None\<rparr>)"
  by (simp add: isCLIProxyProvider_def CLIPROXY_PROVIDER_LIST_def profile_entry_def
      provider_entry_def sample_host_def getProvider_def resolveSettingsProfile_def
      settings_at_def existsSync_def resolveApiProvider_def get_member_def)

lemma env_absent_default:
  assumes "v \<noteq> JNull" and "env_value v ''ANTHROPIC_BASE_URL'' = None"
    and "files h path = Some (RegularFile contents)" and "JSON_parse h contents = Some v"
  shows "\<exists>d. settings_try h nm path = Inr d \<and> baseUrl d = JStr ''https://api.anthropic.com/v1''"
proof -
  from assms(1) obtain envf where e: "get_property v ''env'' = Inr envf"
    by (cases v) simp_all
  let ?env = "if truthy envf then the envf else JObj []"
  have b: "get_property ?env ''ANTHROPIC_BASE_URL'' = Inr None"
  proof (cases v)
    case (JObj kvs)
    with e have envf: "envf = map_of kvs ''env''" by simp
    show ?thesis
    proof (cases "map_of kvs ''env''")
      case None
      with envf show ?thesis by simp
    next
      case (Some ev)
      with envf JObj assms(2) show ?thesis by (cases ev) simp_all
    qed
  qed (use e assms(1) in auto)
  have "truthy (Some ?env)" by (cases envf) auto
  then obtain t where "get_property ?env ''ANTHROPIC_AUTH_TOKEN'' = Inr t"
    using get_property_truthy by blast
  with assms(3,4) e b show ?thesis
    by (simp add: settings_try_def readFileSync_def Let_def)
qed

text \<open>
  C8. For a credential-profile name whose settings file is a regular file that parses:
  when it parses to the value of the scenario, the descriptor has the scenario's base
  URL and token; when it parses to anything but \<^verbatim>\<open>null\<close> and has no base-URL field, a
  descriptor results and its base URL is the default \<^verbatim>\<open>https://api.anthropic.com/v1\<close>;
  and for a name that is no built-in CLIProxy identifier, \<^verbatim>\<open>getProvider\<close> returns that
  descriptor.
\<close>

theorem resolveSettingsProfile_reads_env:
  assumes "profile_entry h nm = Own pc"
    and "files h (expandPath h (settings pc)) = Some (RegularFile contents)"
    and "JSON_parse h contents = Some v"
  shows "(v = scenario_settings \<longrightarrow>
            resolveSettingsProfile h nm =
              Inr (Some \<lparr>name = nm, type = Settings, adapter = ''anthropic'',
                         baseUrl = JStr ''https://api.z.ai/api/anthropic'',
                         authToken = Some (JStr ''tok123''), headers = None\<rparr>))
       \<and> (v \<noteq> JNull \<and> env_value v ''ANTHROPIC_BASE_URL'' = None \<longrightarrow>
            (\<exists>d. resolveSettingsProfile h nm = Inr (Some d) \<and>
                 baseUrl d = JStr ''https://api.anthropic.com/v1''))
       \<and> (\<not> isCLIProxyProvider nm \<and> v \<noteq> JNull \<longrightarrow>
            (\<exists>d. resolveSettingsProfile h nm = Inr (Some d) \<and>
                 getProvider h nm = Inr (Provider d)))"
proof -
  let ?path = "expandPath h (settings pc)"
  have ex: "existsSync (files h) ?path" using assms(2) by (simp add: existsSync_def)
  note own = resolveSettingsProfile_own [OF assms(1)]
  have 1: "resolveSettingsProfile h nm =
              Inr (Some \<lparr>name = nm, type = Settings, adapter = ''anthropic'',
                         baseUrl = JStr ''https://api.z.ai/api/anthropic'',
                         authToken = Some (JStr ''tok123''), headers = None\<rparr>)"
    if "v = scenario_settings"
    using that assms(2,3) ex
    by (simp add: own settings_at_def settings_try_def readFileSync_def
        scenario_settings_def Let_def)
  have 2: "\<exists>d. resolveSettingsProfile h nm = Inr (Some d) \<and>
                 baseUrl d = JStr ''https://api.anthropic.com/v1''"
    if "v \<noteq> JNull" "env_value v ''ANTHROPIC_BASE_URL'' = None"
  proof -
    from env_absent_default [OF that assms(2,3)] obtain d
      where "settings_try h nm ?path = Inr d" "baseUrl d = JStr ''https://api.anthropic.com/v1''"
      by blast
    with ex show ?thesis by (simp add: own settings_at_def)
  qed
  have 3: "\<exists>d. resolveSettingsProfile h nm = Inr (Some d) \<and> getProvider h nm = Inr (Provider d)"
    if "\<not> isCLIProxyProvider nm" "v \<noteq> JNull"
  proof -
    from that(2) assms(2,3) have "settings_file_usable h ?path"
      by (simp add: settings_file_usable_def)
    then obtain d where "settings_at h nm ?path = Some d"
      using settings_at_usable [of h nm ?path] by auto
    with that(1) show ?thesis by (simp add: own getProvider_def)
  qed
  from 1 2 3 show ?thesis by blast
qed

text \<open>
  The scenario's settings file, and the settings file \<^verbatim>\<open>{}\<close>.
\<close>

theorem resolveSettingsProfile_reads_env_witness:
  "getProvider (sample_host (glm_file scenario_text)) ''glm'' =
     Inr (Provider \<lparr>name = ''glm'', type = Settings, adapter = ''anthropic'',
           baseUrl = JStr ''https://api.z.ai/api/anthropic'',
           authToken = Some (JStr ''tok123''), headers = None\<rparr>)
   \<and> JObj [] \<noteq> JNull \<and> env_value (JObj []) ''ANTHROPIC_BASE_URL'' = None
   \<and> (\<exists>d. resolveSettingsProfile (sample_host (glm_file ''{}'')) ''glm'' = Inr (Some d) \<and>
            baseUrl d = JStr ''https://api.anthropic.com/v1'')"
proof -
  have f: "\<And>c. files (sample_host (glm_file c))
            (expandPath (sample_host (glm_file c)) (settings \<lparr>settings = ''~/.ccs/glm.settings.json''\<rparr>))
           = Some (RegularFile c)"
    by (simp add: sample_host_def glm_file_def)
  have p1: "JSON_parse (sample_host (glm_file scenario_text)) scenario_text = Some scenario_settings"
    by (simp add: sample_host_def sample_JSON_parse_def)
  have p2: "JSON_parse (sample_host (glm_file ''{}'')) ''{}'' = Some (JObj [])"
    by (simp add: sample_host_def sample_JSON_parse_def scenario_text_def)
  have n: "scenario_settings \<noteq> JNull" by (simp add: scenario_settings_def)
  from resolveSettingsProfile_reads_env [OF sample_host_glm(2) f p1]
       resolveSettingsProfile_reads_env [OF sample_host_glm(2) f p2]
       sample_host_glm(1) n
  show ?thesis by auto
qed

lemma push_cliproxy_append:
  "push_cliproxy nms acc = acc @ map resolveCLIProxyProvider nms"
  by (induction nms arbitrary: acc) simp_all

lemma push_api_append:
  "push_api h entries acc = acc @ map (\<lambda>(nm, apiConfig). resolveApiProvider h nm apiConfig) entries"
  by (induction h entries acc rule: push_api.induct) simp_all

lemma profile_names_entry:
  "nm \<in> set (profile_names h) \<Longrightarrow> \<exists>pc. profile_entry h nm = Own pc"
proof -
  assume a: "nm \<in> set (profile_names h)"
  then obtain c ps where c: "loadUnifiedConfig h = Some c" "profiles c = Some ps"
      "nm \<in> fst ` set ps"
    by (cases "loadUnifiedConfig h"; cases "profiles (the (loadUnifiedConfig h))")
       (auto simp add: profile_names_def)
  then have "map_of ps nm \<noteq> None" by (simp add: map_of_eq_None_iff)
  with c show ?thesis by (auto simp add: profile_entry_def get_member_def)
qed

text \<open>On the keys of the profile map the settings step never throws.\<close>

lemma push_settings_append:
  "set nms \<subseteq> set (profile_names h) \<Longrightarrow>
     push_settings h nms acc =
       Inr (acc @ List.map_filter (\<lambda>nm. projr (resolveSettingsProfile h nm)) nms)"
proof (induction nms arbitrary: acc)
  case Nil
  show ?case by simp
next
  case (Cons nm nms)
  then obtain pc where "profile_entry h nm = Own pc"
    using profile_names_entry [of nm h] by auto
  then have r: "resolveSettingsProfile h nm = Inr (settings_at h nm (expandPath h (settings pc)))"
    by (rule resolveSettingsProfile_own)
  from Cons have "set nms \<subseteq> set (profile_names h)" by simp
  from Cons.IH [OF this] r show ?case
    by (cases "settings_at h nm (expandPath h (settings pc))") simp_all
qed

lemma set_map_filter_iff:
  "d \<in> set (List.map_filter f xs) \<longleftrightarrow> (\<exists>x\<in>set xs. f x = Some d)"
  by (induction xs) (auto split: option.splits)

lemma getAllProviders_list:
  "getAllProviders h =
     Inr (map resolveCLIProxyProvider CLIPROXY_PROVIDER_LIST
          @ List.map_filter (\<lambda>nm. projr (resolveSettingsProfile h nm)) (profile_names h)
          @ map (\<lambda>(nm, apiConfig). resolveApiProvider h nm apiConfig) (provider_entries h))"
  using push_settings_append [of "profile_names h" h]
  by (simp add: getAllProviders_def push_cliproxy_append push_api_append)

lemma settings_entries:
  assumes "getAllProviders h = Inr ps"
  shows "(\<exists>d\<in>set ps. name d = nm \<and> type d = Settings) =
         (nm \<in> set (profile_names h) \<and> resolveSettingsProfile h nm \<noteq> Inr None)"
proof
  from assms getAllProviders_list [of h]
  have ps: "ps = map resolveCLIProxyProvider CLIPROXY_PROVIDER_LIST
          @ List.map_filter (\<lambda>nm. projr (resolveSettingsProfile h nm)) (profile_names h)
          @ map (\<lambda>(nm, apiConfig). resolveApiProvider h nm apiConfig) (provider_entries h)"
    by simp
  {
    assume "\<exists>d\<in>set ps. name d = nm \<and> type d = Settings"
    then obtain d where d: "d \<in> set ps" "name d = nm" "type d = Settings"
      by blast
    from d(1,3) obtain n where n: "n \<in> set (profile_names h)"
        "projr (resolveSettingsProfile h n) = Some d"
      by (auto simp add: ps set_map_filter_iff resolveCLIProxyProvider_def
          resolveApiProvider_def)
    from n(1) obtain pc where "profile_entry h n = Own pc"
      using profile_names_entry by blast
    with n(2) have r: "resolveSettingsProfile h n = Inr (Some d)"
      by (simp add: resolveSettingsProfile_own)
    with d(2) resolveSettingsProfile_name_type [OF r] n(1)
    show "nm \<in> set (profile_names h) \<and> resolveSettingsProfile h nm \<noteq> Inr None" by auto
  next
    assume a: "nm \<in> set (profile_names h) \<and> resolveSettingsProfile h nm \<noteq> Inr None"
    then obtain pc where "profile_entry h nm = Own pc"
      using profile_names_entry by blast
    with a obtain d where r: "resolveSettingsProfile h nm = Inr (Some d)"
      by (cases "settings_at h nm (expandPath h (settings pc))")
         (auto simp add: resolveSettingsProfile_own)
    then have "projr (resolveSettingsProfile h nm) = Some d" by simp
    with a have "d \<in> set ps"
      unfolding ps by (auto simp add: set_map_filter_iff)
    with resolveSettingsProfile_name_type [OF r]
    show "\<exists>d\<in>set ps. name d = nm \<and> type d = Settings" by blast
  }
qed

text \<open>
  C9, as the code has it. \<^verbatim>\<open>getAllProviders\<close> returns a list and does not throw, and a
  name of the credential-profile map has a settings-kind entry in that list exactly
  when its settings file can be used: it is left out when the file is missing, and also
  when the file is not a readable file, is not valid JSON, or parses to \<^verbatim>\<open>null\<close>; an
  omission is no error.
\<close>

theorem getAllProviders_settings_entries:
  assumes "nm \<in> set (profile_names h)"
  shows "\<exists>ps. getAllProviders h = Inr ps \<and>
           ((\<exists>d\<in>set ps. name d = nm \<and> type d = Settings) \<longleftrightarrow>
            (\<exists>pc. profile_entry h nm = Own pc \<and>
                  settings_file_usable h (expandPath h (settings pc))))"
proof -
  from profile_names_entry [OF assms] obtain pc where pc: "profile_entry h nm = Own pc"
    by blast
  obtain ps where ps: "getAllProviders h = Inr ps"
    using getAllProviders_list by blast
  from resolveSettingsProfile_usable [OF pc] assms pc settings_entries [OF ps]
  have "(\<exists>d\<in>set ps. name d = nm \<and> type d = Settings) \<longleftrightarrow>
            (\<exists>pc. profile_entry h nm = Own pc \<and>
                  settings_file_usable h (expandPath h (settings pc)))"
    by simp
  with ps show ?thesis by blast
qed

text \<open>
  \<^verbatim>\<open>glm\<close> with the scenario's settings file is listed; \<^verbatim>\<open>kimi\<close>, whose file is missing,
  is not.
\<close>

theorem getAllProviders_settings_entries_witness:
  "''glm'' \<in> set (profile_names (sample_host (glm_file scenario_text)))
   \<and> ''kimi'' \<in> set (profile_names (sample_host (glm_file scenario_text)))
   \<and> (\<exists>ps. getAllProviders (sample_host (glm_file scenario_text)) = Inr ps
        \<and> (\<exists>d\<in>set ps. name d = ''glm'' \<and> type d = Settings)
        \<and> \<not> (\<exists>d\<in>set ps. name d = ''kimi'' \<and> type d = Settings))"
proof -
  let ?h = "sample_host (glm_file scenario_text)"
  have g: "''glm'' \<in> set (profile_names ?h)" and k: "''kimi'' \<in> set (profile_names ?h)"
    by (simp_all add: sample_host_kimi)
  have ug: "settings_file_usable ?h ''/home/user/.ccs/glm.settings.json''"
    by (simp add: settings_file_usable_def sample_host_def glm_file_def sample_JSON_parse_def
        scenario_settings_def)
  have uk: "\<not> settings_file_usable ?h ''/home/user/.ccs/kimi.settings.json''"
    by (simp add: settings_file_usable_def sample_host_def glm_file_def)
  from getAllProviders_settings_entries [OF g] getAllProviders_settings_entries [OF k] g k ug uk
  show ?thesis
    by (auto simp add: sample_host_glm sample_host_kimi)
qed

text \<open>
  C9 as stated fails: the settings file of \<^verbatim>\<open>kimi\<close> exists, it is not JSON, and no
  entry of the list has that name.
\<close>

theorem getAllProviders_unparsable_counterexample:
  "''kimi'' \<in> set (profile_names (sample_host (kimi_file ''not json'')))
   \<and> existsSync (files (sample_host (kimi_file ''not json'')))
        (expandPath (sample_host (kimi_file ''not json'')) ''~/.ccs/kimi.settings.json'')
   \<and> map_sum id (map name) (getAllProviders (sample_host (kimi_file ''not json''))) =
       Inr [''agy'', ''gemini'', ''codex'', ''qwen'', ''iflow'', ''kiro'', ''ghcp'', ''glm'']
   \<and> ''kimi'' \<notin> set [''agy'', ''gemini'', ''codex'', ''qwen'', ''iflow'', ''kiro'', ''ghcp'', ''glm'']"
proof -
  let ?h = "sample_host (kimi_file ''not json'')"
  have r: "resolveSettingsProfile ?h ''kimi'' = Inr None"
    by (simp add: resolveSettingsProfile_def settings_at_def sample_host_kimi settings_try_def
        readFileSync_def existsSync_def Let_def kimi_file_def sample_JSON_parse_def
        scenario_text_def)
  have g: "resolveSettingsProfile ?h ''glm'' = Inr None"
    by (simp add: resolveSettingsProfile_def settings_at_def sample_host_glm sample_host_kimi
        existsSync_def Let_def kimi_file_def)
  have e: "provider_entries ?h =
             [(''glm'', \<lparr>adapter_cfg = ''anthropic'',
                        base_url = ''https://open.bigmodel.cn/api/anthropic'',
                        auth_env = ''GLM_API_KEY'', headers_cfg = None\<rparr>)]"
    by (simp add: provider_entries_def sample_host_def)
  have l: "map_sum id (map name) (getAllProviders ?h) =
             Inr [''agy'', ''gemini'', ''codex'', ''qwen'', ''iflow'', ''kiro'', ''ghcp'', ''glm'']"
    by (simp add: getAllProviders_def sample_host_kimi r g e CLIPROXY_PROVIDER_LIST_def
        resolveCLIProxyProvider_def resolveApiProvider_def)
  have x: "existsSync (files ?h) (expandPath ?h ''~/.ccs/kimi.settings.json'')"
    by (simp add: sample_host_kimi existsSync_def kimi_file_def)
  from l x show ?thesis by (simp add: sample_host_kimi)
qed

text \<open>Where the guard of \<^verbatim>\<open>deleteRouterProfile\<close> holds.\<close>

lemma deleteRouterProfile_guard:
  "(fs configPath = None \<longrightarrow> deleteRouterProfile api configPath fs nm = Inr (False, fs))
   \<and> (fs configPath = Some (RegularFile contents)
        \<and> \<not> optional_member_truthy api
              (getIn api (parseDocument api contents) [''router'', ''profiles'']) nm
        \<longrightarrow> deleteRouterProfile api configPath fs nm = Inr (False, fs))"
  by (simp add: deleteRouterProfile_def existsSync_def readFileSync_def Let_def)

text \<open>
  C4 fails on the code for a name that is no profile but names an inherited member. The
  configuration file has the one profile \<^verbatim>\<open>fast\<close>; the section of its profiles has
  nothing of its own under \<^verbatim>\<open>constructor\<close>, yet \<^verbatim>\<open>profiles?.[name]\<close> finds the inherited
  member, the guard does not hold, and \<^verbatim>\<open>deleteRouterProfile\<close> writes the file and
  returns \<^verbatim>\<open>true\<close>. For \<^verbatim>\<open>slow\<close>, which is no profile and no member, it returns
  \<^verbatim>\<open>false\<close> and writes nothing.
\<close>

theorem deleteRouterProfile_inherited_member:
  "sample_config_fs ''/home/user/.ccs/config.yaml'' = Some (RegularFile sample_config_text)
   \<and> getIn sample_document_api (parseDocument sample_document_api sample_config_text)
        [''router'', ''profiles''] = Some (JObj [(''fast'', JObj [])])
   \<and> property_of sample_document_api (JObj [(''fast'', JObj [])]) ''constructor'' = None
   \<and> deleteRouterProfile sample_document_api ''/home/user/.ccs/config.yaml'' sample_config_fs
        ''constructor''
       = Inr (True, writeFileSync sample_config_fs ''/home/user/.ccs/config.yaml''
                      sample_config_text)
   \<and> deleteRouterProfile sample_document_api ''/home/user/.ccs/config.yaml'' sample_config_fs
        ''slow''
       = Inr (False, sample_config_fs)"
proof -
  have a: "sample_config_fs ''/home/user/.ccs/config.yaml'' = Some (RegularFile sample_config_text)"
    by (simp add: sample_config_fs_def)
  have g: "getIn sample_document_api (parseDocument sample_document_api sample_config_text)
        [''router'', ''profiles''] = Some (JObj [(''fast'', JObj [])])"
    by (simp add: sample_document_api_def)
  have p: "\<And>key. property_of sample_document_api (JObj [(''fast'', JObj [])]) key
             = map_of [(''fast'', JObj [])] key"
    by (simp add: sample_document_api_def)
  have d: "toString sample_document_api
             (deleteIn sample_document_api (parseDocument sample_document_api sample_config_text)
                [''router'', ''profiles'', ''constructor'']) = sample_config_text"
    by (simp add: sample_document_api_def)
  have c: "deleteRouterProfile sample_document_api ''/home/user/.ccs/config.yaml'' sample_config_fs
        ''constructor''
       = Inr (True, writeFileSync sample_config_fs ''/home/user/.ccs/config.yaml''
                      sample_config_text)"
    by (simp add: deleteRouterProfile_def existsSync_def readFileSync_def Let_def a g p d
        optional_member_truthy_def OBJECT_PROTOTYPE_MEMBERS_def)
  have s: "deleteRouterProfile sample_document_api ''/home/user/.ccs/config.yaml'' sample_config_fs
        ''slow'' = Inr (False, sample_config_fs)"
    by (simp add: deleteRouterProfile_def existsSync_def readFileSync_def Let_def a g p
        optional_member_truthy_def OBJECT_PROTOTYPE_MEMBERS_def)
  from a g p c s show ?thesis by simp
qed

end
